theory Spec2Isabelle
  imports Complex_Main
begin

section \<open>Python values and failures\<close>

text \<open>
  The exceptions the program can raise, by their Python names. \<open>MPIError\<close> is the
  exception of mpi4py for a send or receive that names a rank outside the communicator;
  \<open>Blocked\<close> is not an exception: it is the outcome of a blocking receive whose
  message never arrives, so the call never returns.
\<close>

datatype error = ValueError | TypeError | NameError | IndexError | LinAlgError
  | MPIError | Blocked

text \<open>Sequencing of statements that may raise: the first failure is the result.\<close>

definition ebind :: "error + 'a \<Rightarrow> ('a \<Rightarrow> error + 'b) \<Rightarrow> error + 'b" where
  "ebind m f = (case m of Inl e \<Rightarrow> Inl e | Inr x \<Rightarrow> f x)"

text \<open>
  \<open>xs[i]\<close> on a Python list: a negative index counts from the end, an index out of
  range raises IndexError.
\<close>

definition getitem :: "'a list \<Rightarrow> int \<Rightarrow> error + 'a" where
  "getitem xs i =
     (if 0 \<le> i \<and> i < int (length xs) then Inr (xs ! nat i)
      else if i < 0 \<and> - int (length xs) \<le> i then Inr (xs ! nat (i + int (length xs)))
      else Inl IndexError)"

text \<open>
  A slice bound of Python, clipped to the length \<open>n\<close> of the sequence; \<open>xs[i:j]\<close> with
  step one.
\<close>

definition py_index :: "int \<Rightarrow> nat \<Rightarrow> nat" where
  "py_index i n = (if i < 0 then nat (max (i + int n) 0) else min (nat i) n)"

definition slice :: "int \<Rightarrow> int \<Rightarrow> 'a list \<Rightarrow> 'a list" where
  "slice i j xs =
     (let a = py_index i (length xs); b = py_index j (length xs)
      in take (b - a) (drop a xs))"

text \<open>\<open>range(start, stop, step)\<close> for a positive step.\<close>

definition py_range :: "int \<Rightarrow> int \<Rightarrow> int \<Rightarrow> int list" where
  "py_range start stop step =
     map (\<lambda>k. start + int k * step) [0..<nat ((stop - start + step - 1) div step)]"

text \<open>
  \<open>int(math.log2(n))\<close> for a positive integer \<open>n\<close>, and
  \<open>math.log2(n).is_integer()\<close>, in exact arithmetic.
\<close>

fun ilog2 :: "nat \<Rightarrow> nat" where
  "ilog2 n = (if n < 2 then 0 else Suc (ilog2 (n div 2)))"

declare ilog2.simps [simp del]

definition log2_is_integer :: "nat \<Rightarrow> bool" where
  "log2_is_integer n = (2 ^ ilog2 n = n)"

section \<open>Dense matrices\<close>

text \<open>
  A two-dimensional numpy array is the list of its rows; the element type \<open>'a\<close> is the
  dtype. The operations are those of numpy on operands of matching shapes (every block
  of the algorithm is \<open>blocksize \<times> blocksize\<close>); the shape errors of numpy are not
  modelled.
\<close>

type_synonym 'a ndarray = "'a list list"

definition ncols :: "'a ndarray \<Rightarrow> nat" where
  "ncols A = (case A of [] \<Rightarrow> 0 | r # _ \<Rightarrow> length r)"

text \<open>\<open>np.zeros((r, c))\<close> and \<open>np.identity(n)\<close>.\<close>

definition zeros :: "nat \<Rightarrow> nat \<Rightarrow> ('a::ring_1) ndarray" where
  "zeros r c = replicate r (replicate c 0)"

definition identity :: "nat \<Rightarrow> ('a::ring_1) ndarray" where
  "identity n = map (\<lambda>i. map (\<lambda>j. if i = j then 1 else 0) [0..<n]) [0..<n]"

text \<open>\<open>A @ B\<close>, \<open>A + B\<close> and \<open>- A\<close>.\<close>

definition matmul :: "('a::ring_1) ndarray \<Rightarrow> 'a ndarray \<Rightarrow> 'a ndarray" where
  "matmul A B =
     map (\<lambda>row. map (\<lambda>j. sum_list (map (\<lambda>k. row ! k * B ! k ! j) [0..<length B]))
            [0..<ncols B]) A"

definition madd :: "('a::ring_1) ndarray \<Rightarrow> 'a ndarray \<Rightarrow> 'a ndarray" where
  "madd A B = map2 (map2 (+)) A B"

definition mneg :: "('a::ring_1) ndarray \<Rightarrow> 'a ndarray" where
  "mneg A = map (map uminus) A"

text \<open>\<open>A[r0:r1, c0:c1]\<close> read, and \<open>A[r0:r1, c0:c1] = B\<close> for non-negative bounds.\<close>

definition slice2 :: "'a ndarray \<Rightarrow> int \<Rightarrow> int \<Rightarrow> int \<Rightarrow> int \<Rightarrow> 'a ndarray" where
  "slice2 A r0 r1 c0 c1 = map (slice c0 c1) (slice r0 r1 A)"

definition setslice2 :: "'a ndarray \<Rightarrow> nat \<Rightarrow> nat \<Rightarrow> nat \<Rightarrow> nat \<Rightarrow> 'a ndarray \<Rightarrow> 'a ndarray" where
  "setslice2 A r0 r1 c0 c1 B =
     map (\<lambda>i. map (\<lambda>j. if r0 \<le> i \<and> i < r1 \<and> c0 \<le> j \<and> j < c1
                         then B ! (i - r0) ! (j - c0) else A ! i ! j)
                [0..<length (A ! i)])
         [0..<length A]"

text \<open>A block: a square matrix of \<open>n\<close> rows of length \<open>n\<close>.\<close>

definition is_block :: "nat \<Rightarrow> 'a ndarray \<Rightarrow> bool" where
  "is_block n A = (length A = n \<and> list_all (\<lambda>r. length r = n) A)"

section \<open>The map initialiser\<close>

text \<open>
  \<open>initialize_matrixmaps\<close> and \<open>initialize_crossmaps\<close> of pdiv_localmap.py. The
  partition \<open>K_local\<close> is read for its dtype only, which here is the element type.
\<close>

definition initialize_matrixmaps :: "('a::ring_1) ndarray \<Rightarrow> nat \<Rightarrow> 'a ndarray list" where
  "initialize_matrixmaps K_local blocksize =
     map (\<lambda>i::nat. if i = 0 \<or> i = 3 \<or> i = 4 \<or> i = 7
                    then identity blocksize else zeros blocksize blocksize)
         [0..<12]"

definition initialize_crossmaps :: "('a::ring_1) ndarray \<Rightarrow> nat \<Rightarrow> 'a ndarray list" where
  "initialize_crossmaps K_local blocksize =
     map (\<lambda>i::nat. zeros blocksize blocksize) [0..<12]"

section \<open>The environment of one worker\<close>

text \<open>
  What a worker process reads from outside the functions of pdiv_localmap.py: the size
  of \<open>MPI.COMM_WORLD\<close> and its own rank in it, \<open>numpy.linalg.inv\<close> (which raises
  LinAlgError on a singular matrix), and the module-level binding of the name
  \<open>blocksize\<close>: the script part of the module binds it, an import of the module
  leaves it unbound.
\<close>

record 'a env =
  comm_size :: nat
  comm_rank :: int
  linalg_inv :: "'a ndarray \<Rightarrow> error + 'a ndarray"
  g_blocksize :: "nat option"

text \<open>
  The messages that will reach this worker, in their order of arrival, each with its
  source rank and tag. \<open>comm.recv(source, tag)\<close> takes the first message of that source
  and tag; with no such message it never returns. \<open>comm.send\<close> of a block returns
  at once and changes nothing in the sender; both raise for a rank outside the
  communicator.
\<close>

type_synonym 'a inbox = "((int \<times> nat) \<times> 'a ndarray) list"

fun take_msg :: "int \<Rightarrow> nat \<Rightarrow> 'a inbox \<Rightarrow> ('a ndarray \<times> 'a inbox) option" where
  "take_msg source tag [] = None"
| "take_msg source tag (m # ms) =
     (if fst m = (source, tag) then Some (snd m, ms)
      else map_option (\<lambda>(v, rest). (v, m # rest)) (take_msg source tag ms))"

definition comm_recv :: "'a env \<Rightarrow> int \<Rightarrow> nat \<Rightarrow> 'a inbox \<Rightarrow> error + ('a ndarray \<times> 'a inbox)" where
  "comm_recv w source tag inbox =
     (if source < 0 \<or> int (comm_size w) \<le> source then Inl MPIError
      else case take_msg source tag inbox of
             None \<Rightarrow> Inl Blocked
           | Some r \<Rightarrow> Inr r)"

definition comm_send :: "'a env \<Rightarrow> 'a ndarray \<Rightarrow> int \<Rightarrow> nat \<Rightarrow> error + unit" where
  "comm_send w obj dest tag =
     (if dest < 0 \<or> int (comm_size w) \<le> dest then Inl MPIError else Inr ())"

section \<open>The local inverter\<close>

definition invert_partition :: "'a env \<Rightarrow> 'a ndarray \<Rightarrow> error + 'a ndarray" where
  "invert_partition w K_local = linalg_inv w K_local"

section \<open>The merge engine\<close>

abbreviation matmul3 :: "('a::ring_1) ndarray \<Rightarrow> 'a ndarray \<Rightarrow> 'a ndarray \<Rightarrow> 'a ndarray" where
  "matmul3 A B C \<equiv> matmul (matmul A B) C"

abbreviation matmul4 :: "('a::ring_1) ndarray \<Rightarrow> 'a ndarray \<Rightarrow> 'a ndarray \<Rightarrow> 'a ndarray \<Rightarrow> 'a ndarray" where
  "matmul4 A B C D \<equiv> matmul (matmul (matmul A B) C) D"

definition get_middle_process :: "int \<Rightarrow> int \<Rightarrow> int" where
  \<comment> \<open>\<open>math.ceil(x / 2)\<close> of an integer \<open>x\<close> is \<open>(x + 1) div 2\<close>\<close>
  "get_middle_process starting_process ending_process =
     starting_process - 1 + (ending_process - starting_process + 1) div 2"

text \<open>
  The boundary blocks. Both functions read matrix-map slots up to index 11, so a list
  of fewer than twelve maps raises IndexError.
\<close>

definition produce_UUR_ULL_ULR ::
  "('a::ring_1) ndarray \<Rightarrow> 'a ndarray list \<Rightarrow> nat \<Rightarrow> error + ('a ndarray \<times> 'a ndarray \<times> 'a ndarray)" where
  "produce_UUR_ULL_ULR K_local l_M blocksize =
     (if length l_M < 12 then Inl IndexError
      else
        let b = int blocksize;
            start_lastblock = int (length K_local) - int blocksize;
            end_lastblock = int (length K_local);
            K_UR = slice2 K_local 0 b start_lastblock end_lastblock;
            K_LL = slice2 K_local start_lastblock end_lastblock 0 b;
            K_LR = slice2 K_local start_lastblock end_lastblock start_lastblock end_lastblock;
            UUR = madd (matmul (l_M ! 0) K_UR) (matmul (l_M ! 1) K_LR);
            ULL = madd (matmul K_LL (l_M ! 4)) (matmul K_LR (l_M ! 5));
            ULR = madd (madd (madd (madd K_LR
                    (matmul3 K_LL (l_M ! 8) K_UR))
                    (matmul3 K_LL (l_M ! 9) K_LR))
                    (matmul3 K_LR (l_M ! 10) K_UR))
                    (matmul3 K_LR (l_M ! 11) K_LR)
        in Inr (UUR, ULL, ULR))"

definition produce_DUL_DUR_DLL ::
  "('a::ring_1) ndarray \<Rightarrow> 'a ndarray list \<Rightarrow> nat \<Rightarrow> error + ('a ndarray \<times> 'a ndarray \<times> 'a ndarray)" where
  "produce_DUL_DUR_DLL K_local l_M blocksize =
     (if length l_M < 12 then Inl IndexError
      else
        let b = int blocksize;
            start_lastblock = int (length K_local) - int blocksize;
            end_lastblock = int (length K_local);
            K_UL = slice2 K_local 0 b 0 b;
            K_UR = slice2 K_local 0 b start_lastblock end_lastblock;
            K_LL = slice2 K_local start_lastblock end_lastblock 0 b;
            DUL = madd (madd (madd (madd K_UL
                    (matmul3 K_UL (l_M ! 8) K_UL))
                    (matmul3 K_UL (l_M ! 9) K_LL))
                    (matmul3 K_UR (l_M ! 10) K_UL))
                    (matmul3 K_UR (l_M ! 11) K_LL);
            DUR = madd (matmul K_UL (l_M ! 2)) (matmul K_UR (l_M ! 3));
            DLL = madd (matmul (l_M ! 6) K_UL) (matmul (l_M ! 7) K_LL)
        in Inr (DUL, DUR, DLL))"

text \<open>
  The loop of a producer over the ranks of its group: three sends, with tags \<open>tag\<close>,
  \<open>tag + 1\<close> and \<open>tag + 2\<close>, to every rank but the producer itself.
\<close>

fun send_blocks ::
  "'a env \<Rightarrow> 'a ndarray \<Rightarrow> 'a ndarray \<Rightarrow> 'a ndarray \<Rightarrow> nat \<Rightarrow> int \<Rightarrow> int list \<Rightarrow> error + unit" where
  "send_blocks w X Y Z tag producer [] = Inr ()"
| "send_blocks w X Y Z tag producer (process # rest) =
     ebind (if process \<noteq> producer
            then ebind (comm_send w X process tag) (\<lambda>_.
                 ebind (comm_send w Y process (tag + 1)) (\<lambda>_.
                 comm_send w Z process (tag + 2)))
            else Inr ())
       (\<lambda>_. send_blocks w X Y Z tag producer rest)"

definition recv_blocks ::
  "'a env \<Rightarrow> int \<Rightarrow> nat \<Rightarrow> 'a inbox \<Rightarrow> error + (('a ndarray \<times> 'a ndarray \<times> 'a ndarray) \<times> 'a inbox)" where
  "recv_blocks w source tag inbox =
     ebind (comm_recv w source tag inbox) (\<lambda>(X, inbox).
     ebind (comm_recv w source (tag + 1) inbox) (\<lambda>(Y, inbox).
     ebind (comm_recv w source (tag + 2) inbox) (\<lambda>(Z, inbox).
     Inr ((X, Y, Z), inbox))))"

text \<open>
  \<open>get_U\<close>: the worker at \<open>middle_process\<close> produces UUR, ULL and ULR and sends them
  to the group, every other worker receives them; the same for DUL, DUR and DLL and
  the worker at \<open>middle_process + 1\<close>. (The zero blocks the source first binds the six
  names to are always overwritten.)
\<close>

definition get_U ::
  "('a::ring_1) env \<Rightarrow> 'a inbox \<Rightarrow> 'a ndarray \<Rightarrow> 'a ndarray list \<Rightarrow> int \<Rightarrow> int \<Rightarrow> int \<Rightarrow> nat
     \<Rightarrow> error + ('a ndarray list \<times> 'a inbox)" where
  "get_U w inbox K_local l_M starting_process middle_process ending_process blocksize =
     ebind (if comm_rank w = middle_process
            then ebind (produce_UUR_ULL_ULR K_local l_M blocksize) (\<lambda>(UUR, ULL, ULR).
                 ebind (send_blocks w UUR ULL ULR 0 middle_process
                          (py_range starting_process (ending_process + 1) 1)) (\<lambda>_.
                 Inr ((UUR, ULL, ULR), inbox)))
            else recv_blocks w middle_process 0 inbox)
       (\<lambda>((UUR, ULL, ULR), inbox).
     ebind (if comm_rank w = middle_process + 1
            then ebind (produce_DUL_DUR_DLL K_local l_M blocksize) (\<lambda>(DUL, DUR, DLL).
                 ebind (send_blocks w DUL DUR DLL 3 (middle_process + 1)
                          (py_range starting_process (ending_process + 1) 1)) (\<lambda>_.
                 Inr ((DUL, DUR, DLL), inbox)))
            else recv_blocks w (middle_process + 1) 3 inbox)
       (\<lambda>((DUL, DUR, DLL), inbox).
     Inr ([UUR, ULL, ULR, DUL, DUR, DLL], inbox)))"

text \<open>
  \<open>get_J\<close>: the coupling matrix is assembled block by block in a zero matrix of
  \<open>2 * blocksize\<close> rows and columns, then inverted. \<open>get_J_coupling\<close> is the matrix
  before the inversion. In Python the unary minus binds tighter than \<open>@\<close>.
\<close>

definition get_J_coupling ::
  "('a::ring_1) ndarray list \<Rightarrow> 'a ndarray \<Rightarrow> 'a ndarray \<Rightarrow> nat \<Rightarrow> error + 'a ndarray" where
  "get_J_coupling l_U Bu_mid Bl_mid blocksize =
     (if length l_U < 4 then Inl IndexError
      else
        let J = zeros (2 * blocksize) (2 * blocksize);
            J = setslice2 J 0 blocksize 0 blocksize (identity blocksize);
            J = setslice2 J 0 blocksize blocksize (2 * blocksize)
                  (matmul (mneg (l_U ! 3)) Bl_mid);
            J = setslice2 J blocksize (2 * blocksize) 0 blocksize
                  (matmul (mneg (l_U ! 2)) Bu_mid);
            J = setslice2 J blocksize (2 * blocksize) blocksize (2 * blocksize)
                  (identity blocksize)
        in Inr J)"

definition get_J ::
  "('a::ring_1) env \<Rightarrow> 'a ndarray list \<Rightarrow> 'a ndarray \<Rightarrow> 'a ndarray \<Rightarrow> nat \<Rightarrow> error + 'a ndarray" where
  "get_J w l_U Bu_mid Bl_mid blocksize =
     ebind (get_J_coupling l_U Bu_mid Bl_mid blocksize) (linalg_inv w)"

subsection \<open>Cross-map update\<close>

text \<open>\<open>get_nextprocess_matrixmap\<close> has the body \<open>pass\<close>: it returns \<open>None\<close>.\<close>

definition get_nextprocess_matrixmap :: "'a ndarray list \<Rightarrow> int \<Rightarrow> 'a ndarray list option" where
  "get_nextprocess_matrixmap l_M middle_process = None"

text \<open>
  The three rules. Each reads its own maps first (IndexError on a short list), then
  subscripts \<open>l_M_ip1\<close> (TypeError when it is \<open>None\<close>), then reads the name
  \<open>blocksize\<close>, which is no parameter of these functions (NameError when the module
  does not bind it), then adds to the slots 0 to 7 of \<open>l_C\<close>, one after the other.
\<close>

definition update_crossmap_upper ::
  "('a::ring_1) env \<Rightarrow> 'a ndarray list \<Rightarrow> 'a ndarray list option \<Rightarrow> 'a ndarray list \<Rightarrow> 'a ndarray \<Rightarrow> 'a ndarray
     \<Rightarrow> error + 'a ndarray list" where
  "update_crossmap_upper w l_M l_M_ip1 l_C Bu_mid J =
     (if length l_M < 8 then Inl IndexError
      else case l_M_ip1 of
        None \<Rightarrow> Inl TypeError
      | Some l_M_ip1 \<Rightarrow>
          if length l_M_ip1 < 8 then Inl IndexError
          else (case g_blocksize w of
            None \<Rightarrow> Inl NameError
          | Some blocksize \<Rightarrow>
              if length l_C < 8 then Inl IndexError
              else
                let M3 = l_M ! 2; M4 = l_M ! 3; M7 = l_M ! 6; M8 = l_M ! 7;
                    M3_ip1 = l_M_ip1 ! 2; M4_ip1 = l_M_ip1 ! 3;
                    M7_ip1 = l_M_ip1 ! 6; M8_ip1 = l_M_ip1 ! 7;
                    b = int blocksize;
                    J12 = slice2 J 0 b b (2 * b);
                    l_C = l_C[0 := madd (l_C ! 0) (matmul4 M3 Bu_mid J12 M7_ip1)];
                    l_C = l_C[1 := madd (l_C ! 1) (matmul4 M3 Bu_mid J12 M8_ip1)];
                    l_C = l_C[2 := madd (l_C ! 2) (matmul4 M4 Bu_mid J12 M7_ip1)];
                    l_C = l_C[3 := madd (l_C ! 3) (matmul4 M4 Bu_mid J12 M8_ip1)];
                    l_C = l_C[4 := madd (l_C ! 4) (matmul4 M3_ip1 Bu_mid J12 M7)];
                    l_C = l_C[5 := madd (l_C ! 5) (matmul4 M3_ip1 Bu_mid J12 M8)];
                    l_C = l_C[6 := madd (l_C ! 6) (matmul4 M4_ip1 Bu_mid J12 M7)];
                    l_C = l_C[7 := madd (l_C ! 7) (matmul4 M4_ip1 Bu_mid J12 M8)]
                in Inr l_C))"

definition update_crossmap_middle ::
  "('a::ring_1) env \<Rightarrow> 'a ndarray list \<Rightarrow> 'a ndarray list option \<Rightarrow> 'a ndarray list \<Rightarrow> 'a ndarray \<Rightarrow> 'a ndarray
     \<Rightarrow> 'a ndarray \<Rightarrow> error + 'a ndarray list" where
  "update_crossmap_middle w l_M l_M_ip1 l_C Bu_mid Bl_mid J =
     (if length l_M < 8 then Inl IndexError
      else case l_M_ip1 of
        None \<Rightarrow> Inl TypeError
      | Some l_M_ip1 \<Rightarrow>
          if length l_M_ip1 < 6 then Inl IndexError
          else (case g_blocksize w of
            None \<Rightarrow> Inl NameError
          | Some blocksize \<Rightarrow>
              if length l_C < 8 then Inl IndexError
              else
                let M3 = l_M ! 2; M4 = l_M ! 3; M7 = l_M ! 6; M8 = l_M ! 7;
                    M1_ip1 = l_M_ip1 ! 0; M2_ip1 = l_M_ip1 ! 1;
                    M5_ip1 = l_M_ip1 ! 4; M6_ip1 = l_M_ip1 ! 5;
                    b = int blocksize;
                    J11 = slice2 J 0 b 0 b;
                    J22 = slice2 J b (2 * b) b (2 * b);
                    l_C = l_C[0 := madd (l_C ! 0) (matmul4 M3 Bu_mid J11 M1_ip1)];
                    l_C = l_C[1 := madd (l_C ! 1) (matmul4 M3 Bu_mid J11 M2_ip1)];
                    l_C = l_C[2 := madd (l_C ! 2) (matmul4 M4 Bu_mid J11 M1_ip1)];
                    l_C = l_C[3 := madd (l_C ! 3) (matmul4 M4 Bu_mid J11 M2_ip1)];
                    l_C = l_C[4 := madd (l_C ! 4) (matmul4 M5_ip1 Bl_mid J22 M7)];
                    l_C = l_C[5 := madd (l_C ! 5) (matmul4 M5_ip1 Bl_mid J22 M8)];
                    l_C = l_C[6 := madd (l_C ! 6) (matmul4 M6_ip1 Bl_mid J22 M7)];
                    l_C = l_C[7 := madd (l_C ! 7) (matmul4 M6_ip1 Bl_mid J22 M8)]
                in Inr l_C))"

definition update_crossmap_lower ::
  "('a::ring_1) env \<Rightarrow> 'a ndarray list \<Rightarrow> 'a ndarray list option \<Rightarrow> 'a ndarray list \<Rightarrow> 'a ndarray \<Rightarrow> 'a ndarray
     \<Rightarrow> error + 'a ndarray list" where
  "update_crossmap_lower w l_M l_M_ip1 l_C Bl_mid J =
     (if length l_M < 6 then Inl IndexError
      else case l_M_ip1 of
        None \<Rightarrow> Inl TypeError
      | Some l_M_ip1 \<Rightarrow>
          if length l_M_ip1 < 6 then Inl IndexError
          else (case g_blocksize w of
            None \<Rightarrow> Inl NameError
          | Some blocksize \<Rightarrow>
              if length l_C < 8 then Inl IndexError
              else
                let M1 = l_M ! 0; M2 = l_M ! 1; M5 = l_M ! 4; M6 = l_M ! 5;
                    M1_ip1 = l_M_ip1 ! 0; M2_ip1 = l_M_ip1 ! 1;
                    M5_ip1 = l_M_ip1 ! 4; M6_ip1 = l_M_ip1 ! 5;
                    b = int blocksize;
                    J21 = slice2 J b (2 * b) 0 b;
                    l_C = l_C[0 := madd (l_C ! 0) (matmul4 M5 Bl_mid J21 M1_ip1)];
                    l_C = l_C[1 := madd (l_C ! 1) (matmul4 M5 Bl_mid J21 M1_ip1)];
                    l_C = l_C[2 := madd (l_C ! 2) (matmul4 M6 Bl_mid J21 M1_ip1)];
                    l_C = l_C[3 := madd (l_C ! 3) (matmul4 M6 Bl_mid J21 M2_ip1)];
                    l_C = l_C[4 := madd (l_C ! 4) (matmul4 M5_ip1 Bl_mid J21 M1)];
                    l_C = l_C[5 := madd (l_C ! 5) (matmul4 M5_ip1 Bl_mid J21 M2)];
                    l_C = l_C[6 := madd (l_C ! 6) (matmul4 M6_ip1 Bl_mid J21 M1)];
                    l_C = l_C[7 := madd (l_C ! 7) (matmul4 M6_ip1 Bl_mid J21 M2)]
                in Inr l_C))"

definition update_crossmap ::
  "('a::ring_1) env \<Rightarrow> 'a ndarray list \<Rightarrow> 'a ndarray list \<Rightarrow> 'a ndarray \<Rightarrow> 'a ndarray \<Rightarrow> 'a ndarray \<Rightarrow> int \<Rightarrow> nat
     \<Rightarrow> error + 'a ndarray list" where
  "update_crossmap w l_C l_M Bu_mid Bl_mid J middle_process blocksize =
     (let l_M_ip1 = get_nextprocess_matrixmap l_M middle_process
      in if comm_rank w < middle_process
           then update_crossmap_upper w l_M l_M_ip1 l_C Bu_mid J
         else if comm_rank w = middle_process
           then update_crossmap_middle w l_M l_M_ip1 l_C Bu_mid Bl_mid J
         else update_crossmap_lower w l_M l_M_ip1 l_C Bl_mid J)"

subsection \<open>Matrix-map update\<close>

text \<open>
  Both rules assign the twelve slots in the order of the source, each right-hand side
  reading the list as the earlier assignments left it. They read up to slot 11, so a
  list of fewer than twelve maps raises IndexError.
\<close>

definition update_matrixmap_upper ::
  "('a::ring_1) ndarray list \<Rightarrow> 'a ndarray \<Rightarrow> 'a ndarray \<Rightarrow> 'a ndarray \<Rightarrow> 'a ndarray \<Rightarrow> 'a ndarray \<Rightarrow> 'a ndarray
     \<Rightarrow> 'a ndarray \<Rightarrow> 'a ndarray \<Rightarrow> 'a ndarray \<Rightarrow> error + 'a ndarray list" where
  "update_matrixmap_upper l_M UUR DUR ULL DLL Bu_mid Bl_mid J11 J12 J22 =
     (if length l_M < 12 then Inl IndexError
      else
        let l_M = l_M[0 := madd (l_M ! 0) (matmul4 UUR Bu_mid J12 (l_M ! 6))];
            l_M = l_M[1 := madd (l_M ! 1) (matmul4 UUR Bu_mid J12 (l_M ! 7))];
            l_M = l_M[2 := matmul4 (l_M ! 2) Bu_mid J11 DUR];
            l_M = l_M[3 := matmul4 (l_M ! 3) Bu_mid J11 DUR];
            l_M = l_M[4 := madd (l_M ! 4) (matmul4 (l_M ! 2) Bu_mid J12 ULL)];
            l_M = l_M[5 := madd (l_M ! 5) (matmul4 (l_M ! 3) Bu_mid J12 ULL)];
            l_M = l_M[6 := matmul4 DLL Bl_mid J22 (l_M ! 6)];
            l_M = l_M[7 := matmul4 DLL Bl_mid J22 (l_M ! 7)];
            l_M = l_M[8 := madd (l_M ! 8) (matmul4 (l_M ! 2) Bu_mid J12 (l_M ! 6))];
            l_M = l_M[9 := madd (l_M ! 9) (matmul4 (l_M ! 2) Bu_mid J12 (l_M ! 7))];
            l_M = l_M[10 := madd (l_M ! 10) (matmul4 (l_M ! 3) Bu_mid J12 (l_M ! 6))];
            l_M = l_M[11 := madd (l_M ! 11) (matmul4 (l_M ! 3) Bu_mid J12 (l_M ! 7))]
        in Inr l_M)"

definition update_matrixmap_lower ::
  "('a::ring_1) ndarray list \<Rightarrow> 'a ndarray \<Rightarrow> 'a ndarray \<Rightarrow> 'a ndarray \<Rightarrow> 'a ndarray \<Rightarrow> 'a ndarray \<Rightarrow> 'a ndarray
     \<Rightarrow> 'a ndarray \<Rightarrow> 'a ndarray \<Rightarrow> 'a ndarray \<Rightarrow> error + 'a ndarray list" where
  "update_matrixmap_lower l_M UUR DUR ULL DLL Bu_mid Bl_mid J11 J21 J22 =
     (if length l_M < 12 then Inl IndexError
      else
        let l_M = l_M[0 := matmul4 UUR Bu_mid J11 (l_M ! 0)];
            l_M = l_M[1 := matmul4 UUR Bu_mid J11 (l_M ! 1)];
            l_M = l_M[2 := madd (l_M ! 2) (matmul4 (l_M ! 4) Bl_mid J21 DUR)];
            l_M = l_M[3 := madd (l_M ! 3) (matmul4 (l_M ! 5) Bl_mid J21 DUR)];
            l_M = l_M[4 := matmul4 (l_M ! 5) Bl_mid J22 ULL];
            l_M = l_M[5 := matmul4 (l_M ! 4) Bl_mid J22 ULL];
            l_M = l_M[6 := madd (l_M ! 6) (matmul4 DLL Bl_mid J21 (l_M ! 0))];
            l_M = l_M[7 := madd (l_M ! 7) (matmul4 DLL Bl_mid J21 (l_M ! 1))];
            l_M = l_M[8 := madd (l_M ! 8) (matmul4 (l_M ! 4) Bl_mid J21 (l_M ! 0))];
            l_M = l_M[9 := madd (l_M ! 9) (matmul4 (l_M ! 4) Bl_mid J21 (l_M ! 1))];
            l_M = l_M[10 := madd (l_M ! 10) (matmul4 (l_M ! 5) Bl_mid J21 (l_M ! 0))];
            l_M = l_M[11 := madd (l_M ! 11) (matmul4 (l_M ! 5) Bl_mid J21 (l_M ! 1))]
        in Inr l_M)"

definition update_matrixmap ::
  "('a::ring_1) env \<Rightarrow> 'a ndarray list \<Rightarrow> 'a ndarray list \<Rightarrow> 'a ndarray \<Rightarrow> 'a ndarray \<Rightarrow> 'a ndarray \<Rightarrow> int \<Rightarrow> nat
     \<Rightarrow> error + 'a ndarray list" where
  "update_matrixmap w l_M l_U Bu_mid Bl_mid J middle_process blocksize =
     (if length l_U < 6 then Inl IndexError
      else
        let UUR = l_U ! 0; DUR = l_U ! 4; ULL = l_U ! 1; DLL = l_U ! 5;
            b = int blocksize;
            J11 = slice2 J 0 b 0 b;
            J12 = slice2 J 0 b b (2 * b);
            J21 = slice2 J b (2 * b) 0 b;
            J22 = slice2 J b (2 * b) b (2 * b)
        in if comm_rank w \<le> middle_process
           then update_matrixmap_upper l_M UUR DUR ULL DLL Bu_mid Bl_mid J11 J12 J22
           else update_matrixmap_lower l_M UUR DUR ULL DLL Bu_mid Bl_mid J11 J21 J22)"

section \<open>The reduction tree coordinator\<close>

text \<open>
  The state a worker carries through the reduction: its matrix maps, its cross maps
  (both lists are mutated in place by the source, so the caller sees every update) and
  the messages still to be received.
\<close>

type_synonym 'a maps = "'a ndarray list \<times> 'a ndarray list \<times> 'a inbox"

text \<open>
  The body of the loop of \<open>update_maps\<close>, for one \<open>active_process\<close>. The progress
  line that rank 0 prints after each group is left out.
\<close>

definition update_group ::
  "('a::ring_1) env \<Rightarrow> 'a ndarray \<Rightarrow> 'a ndarray list \<Rightarrow> 'a ndarray list \<Rightarrow> nat \<Rightarrow> nat \<Rightarrow> int \<Rightarrow> 'a maps
     \<Rightarrow> error + 'a maps" where
  "update_group w K_local l_upperbridges l_lowerbridges current_step blocksize
       active_process s =
     (case s of (l_M, l_C, inbox) \<Rightarrow>
        let process_stride = 2 ^ current_step;
            starting_process = active_process;
            ending_process = active_process + process_stride - 1;
            middle_process = get_middle_process starting_process ending_process
        in if starting_process \<le> comm_rank w \<and> comm_rank w \<le> ending_process
           then
             ebind (get_U w inbox K_local l_M starting_process middle_process
                      ending_process blocksize) (\<lambda>(l_U, inbox).
             ebind (getitem l_upperbridges middle_process) (\<lambda>Bu_mid.
             ebind (getitem l_lowerbridges middle_process) (\<lambda>Bl_mid.
             ebind (get_J w l_U Bu_mid Bl_mid blocksize) (\<lambda>J.
             ebind (update_crossmap w l_C l_M Bu_mid Bl_mid J middle_process blocksize)
               (\<lambda>l_C.
             ebind (update_matrixmap w l_M l_U Bu_mid Bl_mid J middle_process blocksize)
               (\<lambda>l_M.
             Inr (l_M, l_C, inbox)))))))
           else Inr (l_M, l_C, inbox))"

fun update_groups ::
  "('a::ring_1) env \<Rightarrow> 'a ndarray \<Rightarrow> 'a ndarray list \<Rightarrow> 'a ndarray list \<Rightarrow> nat \<Rightarrow> nat \<Rightarrow> int list
     \<Rightarrow> 'a maps \<Rightarrow> error + 'a maps" where
  "update_groups w K_local ub lb current_step blocksize [] s = Inr s"
| "update_groups w K_local ub lb current_step blocksize (active_process # rest) s =
     ebind (update_group w K_local ub lb current_step blocksize active_process s)
       (update_groups w K_local ub lb current_step blocksize rest)"

definition update_maps ::
  "('a::ring_1) env \<Rightarrow> 'a maps \<Rightarrow> 'a ndarray \<Rightarrow> 'a ndarray list \<Rightarrow> 'a ndarray list \<Rightarrow> nat \<Rightarrow> nat
     \<Rightarrow> error + 'a maps" where
  "update_maps w s K_local l_upperbridges l_lowerbridges current_step blocksize =
     update_groups w K_local l_upperbridges l_lowerbridges current_step blocksize
       (py_range 0 (int (comm_size w)) (2 ^ current_step)) s"

text \<open>The loop of \<open>pdiv_localmap\<close> over the reduction steps.\<close>

fun reduction_steps ::
  "('a::ring_1) env \<Rightarrow> 'a ndarray \<Rightarrow> 'a ndarray list \<Rightarrow> 'a ndarray list \<Rightarrow> nat \<Rightarrow> nat list \<Rightarrow> 'a maps
     \<Rightarrow> error + 'a maps" where
  "reduction_steps w K_local ub lb blocksize [] s = Inr s"
| "reduction_steps w K_local ub lb blocksize (current_step # rest) s =
     ebind (update_maps w s K_local ub lb current_step blocksize)
       (reduction_steps w K_local ub lb blocksize rest)"

text \<open>
  \<open>pdiv_localmap_state\<close> is the run of \<open>pdiv_localmap\<close> with everything it leaves
  behind: the three values it returns, then the maps and the unread messages.
  \<open>pdiv_localmap\<close> is what the caller gets.
\<close>

definition pdiv_localmap_state ::
  "('a::ring_1) env \<Rightarrow> 'a inbox \<Rightarrow> 'a ndarray \<Rightarrow> 'a ndarray list \<Rightarrow> 'a ndarray list \<Rightarrow> nat
     \<Rightarrow> error + (('a ndarray \<times> 'a ndarray list \<times> 'a ndarray list) \<times> 'a maps)" where
  "pdiv_localmap_state w inbox K_local l_upperbridges l_lowerbridges blocksize =
     ebind (invert_partition w K_local) (\<lambda>K_local.
       let l_M = initialize_matrixmaps K_local blocksize;
           l_C = initialize_crossmaps K_local blocksize;
           n_reduction_steps = ilog2 (comm_size w)
       in ebind (reduction_steps w K_local l_upperbridges l_lowerbridges blocksize
                   [1..<n_reduction_steps + 1] (l_M, l_C, inbox)) (\<lambda>s.
          Inr ((K_local, l_upperbridges, l_lowerbridges), s)))"

definition pdiv_localmap ::
  "('a::ring_1) env \<Rightarrow> 'a inbox \<Rightarrow> 'a ndarray \<Rightarrow> 'a ndarray list \<Rightarrow> 'a ndarray list \<Rightarrow> nat
     \<Rightarrow> error + ('a ndarray \<times> 'a ndarray list \<times> 'a ndarray list)" where
  "pdiv_localmap w inbox K_local l_upperbridges l_lowerbridges blocksize =
     ebind (pdiv_localmap_state w inbox K_local l_upperbridges l_lowerbridges blocksize)
       (\<lambda>(r, s). Inr r)"

section \<open>The entry point of pdiv_parallel.py\<close>

text \<open>
  Every helper of pdiv_parallel.py has the body \<open>pass\<close> and returns \<open>None\<close>. \<open>pdiv\<close>
  unpacks the result of two of them, which raises TypeError on \<open>None\<close>; the results of
  the others are dropped or bound to a name that is not read.
\<close>

definition allocate_memory_for_partitions ::
  "'a ndarray \<Rightarrow> nat \<Rightarrow> nat \<Rightarrow> ('a ndarray \<times> 'a ndarray list \<times> nat list \<times> nat list) option" where
  "allocate_memory_for_partitions A n_partitions blocksize = None"

definition partition_subdomain ::
  "'a ndarray \<Rightarrow> nat list \<Rightarrow> nat list \<Rightarrow> nat \<Rightarrow> ('a ndarray list \<times> 'a ndarray list) option" where
  "partition_subdomain A l_start_blockrow l_partitions_sizes blocksize = None"

definition pdiv :: "'a env \<Rightarrow> 'a ndarray \<Rightarrow> nat \<Rightarrow> error + 'a ndarray" where
  "pdiv w A blocksize =
     (if \<not> log2_is_integer (comm_size w) then Inl ValueError
      else case allocate_memory_for_partitions A (comm_size w) blocksize of
        None \<Rightarrow> Inl TypeError
      | Some (K_local, B_local, l_start_blockrow, l_partitions_sizes) \<Rightarrow>
          ebind (if comm_rank w = 0
                 then case partition_subdomain A l_start_blockrow l_partitions_sizes
                             blocksize of
                        None \<Rightarrow> Inl TypeError
                      | Some (K_i, B_i) \<Rightarrow> Inr ()
                 else Inr ()) (\<lambda>_.
          Inr K_local))"

section \<open>An exact dense inverse\<close>

text \<open>
  \<open>numpy.linalg.inv\<close> in exact arithmetic over a field, by Gauss-Jordan elimination on
  the matrix extended with the identity: LinAlgError for a matrix that is not square or
  is singular. The program takes the inverse from its environment; this one runs it on
  concrete inputs.
\<close>

definition gj_eliminate :: "('a::field) ndarray \<Rightarrow> nat \<Rightarrow> nat \<Rightarrow> 'a ndarray" where
  "gj_eliminate M c r =
     (let M1 = M[c := M ! r, r := M ! c];
          p = map (\<lambda>x. x / (M1 ! c ! c)) (M1 ! c)
      in map (\<lambda>i. if i = c then p
                   else map2 (\<lambda>x y. x - (M1 ! i ! c) * y) (M1 ! i) p)
           [0..<length M1])"

fun gj_columns :: "nat list \<Rightarrow> ('a::field) ndarray \<Rightarrow> 'a ndarray option" where
  "gj_columns [] M = Some M"
| "gj_columns (c # cs) M =
     (case find (\<lambda>r. M ! r ! c \<noteq> 0) [c..<length M] of
        None \<Rightarrow> None
      | Some r \<Rightarrow> gj_columns cs (gj_eliminate M c r))"

definition exact_inv :: "('a::field) ndarray \<Rightarrow> error + 'a ndarray" where
  "exact_inv A =
     (let n = length A
      in if \<not> is_block n A then Inl LinAlgError
         else case gj_columns [0..<n] (map2 (@) A (identity n)) of
                None \<Rightarrow> Inl LinAlgError
              | Some M \<Rightarrow> Inr (map (drop n) M))"

section \<open>The update rules on pre-update values\<close>

text \<open>
  For comparison only: the two matrix-map rules with every right-hand side evaluated
  on the maps as they were before the call, and all twelve slots assigned at once. The
  program does not contain them.
\<close>

definition update_matrixmap_upper_prestate ::
  "('a::ring_1) ndarray list \<Rightarrow> 'a ndarray \<Rightarrow> 'a ndarray \<Rightarrow> 'a ndarray \<Rightarrow> 'a ndarray
     \<Rightarrow> 'a ndarray \<Rightarrow> 'a ndarray \<Rightarrow> 'a ndarray \<Rightarrow> 'a ndarray \<Rightarrow> 'a ndarray
     \<Rightarrow> error + 'a ndarray list" where
  "update_matrixmap_upper_prestate l_M UUR DUR ULL DLL Bu_mid Bl_mid J11 J12 J22 =
     (if length l_M < 12 then Inl IndexError
      else Inr (l_M
        [0 := madd (l_M ! 0) (matmul4 UUR Bu_mid J12 (l_M ! 6)),
         1 := madd (l_M ! 1) (matmul4 UUR Bu_mid J12 (l_M ! 7)),
         2 := matmul4 (l_M ! 2) Bu_mid J11 DUR,
         3 := matmul4 (l_M ! 3) Bu_mid J11 DUR,
         4 := madd (l_M ! 4) (matmul4 (l_M ! 2) Bu_mid J12 ULL),
         5 := madd (l_M ! 5) (matmul4 (l_M ! 3) Bu_mid J12 ULL),
         6 := matmul4 DLL Bl_mid J22 (l_M ! 6),
         7 := matmul4 DLL Bl_mid J22 (l_M ! 7),
         8 := madd (l_M ! 8) (matmul4 (l_M ! 2) Bu_mid J12 (l_M ! 6)),
         9 := madd (l_M ! 9) (matmul4 (l_M ! 2) Bu_mid J12 (l_M ! 7)),
         10 := madd (l_M ! 10) (matmul4 (l_M ! 3) Bu_mid J12 (l_M ! 6)),
         11 := madd (l_M ! 11) (matmul4 (l_M ! 3) Bu_mid J12 (l_M ! 7))]))"

definition update_matrixmap_lower_prestate ::
  "('a::ring_1) ndarray list \<Rightarrow> 'a ndarray \<Rightarrow> 'a ndarray \<Rightarrow> 'a ndarray \<Rightarrow> 'a ndarray
     \<Rightarrow> 'a ndarray \<Rightarrow> 'a ndarray \<Rightarrow> 'a ndarray \<Rightarrow> 'a ndarray \<Rightarrow> 'a ndarray
     \<Rightarrow> error + 'a ndarray list" where
  "update_matrixmap_lower_prestate l_M UUR DUR ULL DLL Bu_mid Bl_mid J11 J21 J22 =
     (if length l_M < 12 then Inl IndexError
      else Inr (l_M
        [0 := matmul4 UUR Bu_mid J11 (l_M ! 0),
         1 := matmul4 UUR Bu_mid J11 (l_M ! 1),
         2 := madd (l_M ! 2) (matmul4 (l_M ! 4) Bl_mid J21 DUR),
         3 := madd (l_M ! 3) (matmul4 (l_M ! 5) Bl_mid J21 DUR),
         4 := matmul4 (l_M ! 5) Bl_mid J22 ULL,
         5 := matmul4 (l_M ! 4) Bl_mid J22 ULL,
         6 := madd (l_M ! 6) (matmul4 DLL Bl_mid J21 (l_M ! 0)),
         7 := madd (l_M ! 7) (matmul4 DLL Bl_mid J21 (l_M ! 1)),
         8 := madd (l_M ! 8) (matmul4 (l_M ! 4) Bl_mid J21 (l_M ! 0)),
         9 := madd (l_M ! 9) (matmul4 (l_M ! 4) Bl_mid J21 (l_M ! 1)),
         10 := madd (l_M ! 10) (matmul4 (l_M ! 5) Bl_mid J21 (l_M ! 0)),
         11 := madd (l_M ! 11) (matmul4 (l_M ! 5) Bl_mid J21 (l_M ! 1))]))"

section \<open>Concrete workers\<close>

text \<open>
  The worker of rank \<open>r\<close> among \<open>P\<close> processes, computing over the rationals with the
  exact inverse, in a process that imported the module (\<open>blocksize\<close> is not bound at
  module level); \<open>worker_bound P r b\<close> is the same worker in a process whose module
  binds \<open>blocksize = b\<close> (the script part of the module binds 2).
\<close>

definition worker :: "nat \<Rightarrow> int \<Rightarrow> rat env" where
  "worker P r = \<lparr>comm_size = P, comm_rank = r, linalg_inv = exact_inv, g_blocksize = None\<rparr>"

definition worker_bound :: "nat \<Rightarrow> int \<Rightarrow> nat \<Rightarrow> rat env" where
  "worker_bound P r b =
     \<lparr>comm_size = P, comm_rank = r, linalg_inv = exact_inv, g_blocksize = Some b\<rparr>"

section \<open>Properties\<close>

lemma upt_12: "[0..<12] = [0, 1, 2, 3, 4, 5, 6, 7, 8, 9, 10, 11::nat]"
  by (simp add: upt_rec)

lemma replicate_12: "replicate 12 x = [x, x, x, x, x, x, x, x, x, x, x, x]"
  by (simp add: eval_nat_numeral)

text \<open>
  C10. For every blocksize and dtype, \<open>initialize_matrixmaps\<close> returns twelve blocks:
  the identity at indices 0, 3, 4 and 7 and the zero block elsewhere;
  \<open>initialize_crossmaps\<close> returns twelve zero blocks. Both depend on the blocksize and
  the dtype only, never on the content of the partition they are given, so two calls
  with the same blocksize and dtype give the same maps.
\<close>

theorem initialize_maps_seed:
  fixes K_local K_other :: "('a::ring_1) ndarray"
  shows "initialize_matrixmaps K_local blocksize =
           [identity blocksize, zeros blocksize blocksize, zeros blocksize blocksize,
            identity blocksize, identity blocksize, zeros blocksize blocksize,
            zeros blocksize blocksize, identity blocksize, zeros blocksize blocksize,
            zeros blocksize blocksize, zeros blocksize blocksize, zeros blocksize blocksize]
       \<and> length (initialize_matrixmaps K_local blocksize) = 12
       \<and> initialize_crossmaps K_local blocksize = replicate 12 (zeros blocksize blocksize)
       \<and> length (initialize_crossmaps K_local blocksize) = 12
       \<and> initialize_matrixmaps K_local blocksize = initialize_matrixmaps K_other blocksize
       \<and> initialize_crossmaps K_local blocksize = initialize_crossmaps K_other blocksize"
  by (simp add: initialize_matrixmaps_def initialize_crossmaps_def upt_12 replicate_12)

subsection \<open>Sequencing and the step count\<close>

lemma ebind_Inl [simp]: "ebind (Inl e) f = Inl e"
  by (simp add: ebind_def)

lemma ebind_Inr [simp]: "ebind (Inr x) f = f x"
  by (simp add: ebind_def)

lemma ilog2_1 [simp]: "ilog2 (Suc 0) = 0"
  by (simp add: ilog2.simps)

lemma ilog2_ge_2: "2 \<le> n \<Longrightarrow> ilog2 n = Suc (ilog2 (n div 2))"
  by (subst ilog2.simps) simp

subsection \<open>A single worker\<close>

text \<open>
  C9. With one worker \<open>pdiv_localmap\<close> runs no reduction step: it returns the output
  of the local inverter (or its failure) with both bridge lists as they were given, and
  it leaves the matrix maps and the cross maps as the initialiser made them and the
  pending messages unread.
\<close>

theorem single_worker_is_local_inverse:
  fixes w :: "('a::ring_1) env"
  assumes "comm_size w = 1"
  shows "ilog2 (comm_size w) = 0
       \<and> pdiv_localmap w inbox K_local l_upperbridges l_lowerbridges blocksize =
           ebind (invert_partition w K_local)
             (\<lambda>K_inv. Inr (K_inv, l_upperbridges, l_lowerbridges))
       \<and> pdiv_localmap_state w inbox K_local l_upperbridges l_lowerbridges blocksize =
           ebind (linalg_inv w K_local)
             (\<lambda>K_inv. Inr ((K_inv, l_upperbridges, l_lowerbridges),
                (initialize_matrixmaps K_inv blocksize,
                 initialize_crossmaps K_inv blocksize, inbox)))"
proof -
  have st: "pdiv_localmap_state w inbox K_local l_upperbridges l_lowerbridges blocksize =
           ebind (linalg_inv w K_local)
             (\<lambda>K_inv. Inr ((K_inv, l_upperbridges, l_lowerbridges),
                (initialize_matrixmaps K_inv blocksize,
                 initialize_crossmaps K_inv blocksize, inbox)))"
    using assms by (simp add: pdiv_localmap_state_def invert_partition_def)
  show ?thesis
    using assms st by (cases "linalg_inv w K_local")
      (simp_all add: pdiv_localmap_def invert_partition_def)
qed

theorem single_worker_is_local_inverse_witness:
  "comm_size (worker 1 0) = 1
   \<and> pdiv_localmap (worker 1 0) [] [[2]] [[[1]]] [[[1]]] 1 = Inr ([[1 / 2]], [[[1]]], [[[1]]])"
proof -
  have h: "comm_size (worker 1 0) = 1"
    by (simp add: worker_def)
  have inv: "invert_partition (worker 1 0) [[2]] = Inr [[1 / 2]]"
    by code_simp
  have "pdiv_localmap (worker 1 0) [] [[2]] [[[1]]] [[[1]]] 1 =
          ebind (invert_partition (worker 1 0) [[2]])
            (\<lambda>K_inv. Inr (K_inv, [[[1]]], [[[1]]]))"
    using single_worker_is_local_inverse [OF h] by blast
  also have "\<dots> = Inr ([[1 / 2]], [[[1]]], [[[1]]])"
    unfolding inv by (rule ebind_Inr)
  finally show ?thesis
    using h by blast
qed

subsection \<open>The first reduction step\<close>

lemma update_crossmap_fails:
  "\<exists>e. update_crossmap w l_C l_M Bu_mid Bl_mid J middle_process blocksize = Inl e"
  by (simp add: update_crossmap_def get_nextprocess_matrixmap_def
      update_crossmap_upper_def update_crossmap_middle_def update_crossmap_lower_def)

lemma fails_iff: "(\<exists>e. r = Inl e) = (\<forall>y. r \<noteq> Inr y)"
  by (cases r) auto

lemma ebind_eq_Inr: "(ebind m f = Inr y) = (\<exists>x. m = Inr x \<and> f x = Inr y)"
  by (cases m) auto

lemma update_group_fails:
  assumes "active_process \<le> comm_rank w"
    and "comm_rank w \<le> active_process + 2 ^ current_step - 1"
  shows "\<exists>e. update_group w K_local ub lb current_step blocksize active_process s = Inl e"
proof -
  obtain l_M l_C inbox where s: "s = (l_M, l_C, inbox)"
    by (cases s) auto
  have no: "update_crossmap w l_C l_M Bu Bl J mid blocksize \<noteq> Inr y" for Bu Bl J mid y
    using update_crossmap_fails [of w l_C l_M Bu Bl J mid blocksize] by auto
  show ?thesis
    unfolding fails_iff
  proof (intro allI notI)
    fix y
    assume "update_group w K_local ub lb current_step blocksize active_process s = Inr y"
    with assms have "\<exists>Bu Bl J mid z. update_crossmap w l_C l_M Bu Bl J mid blocksize = Inr z"
      unfolding s update_group_def Let_def
      by (simp add: ebind_eq_Inr split: prod.splits) blast
    with no show False by blast
  qed
qed

lemma update_group_skips:
  assumes "\<not> (active_process \<le> comm_rank w
              \<and> comm_rank w \<le> active_process + 2 ^ current_step - 1)"
  shows "update_group w K_local ub lb current_step blocksize active_process s = Inr s"
  using assms by (cases s) (auto simp: update_group_def Let_def)

lemma update_groups_fails:
  assumes "a \<in> set as" and "a \<le> comm_rank w"
    and "comm_rank w \<le> a + 2 ^ current_step - 1"
  shows "\<exists>e. update_groups w K_local ub lb current_step blocksize as s = Inl e"
  using assms(1)
proof (induction as arbitrary: s)
  case Nil
  then show ?case by simp
next
  case (Cons x xs)
  show ?case
  proof (cases "update_group w K_local ub lb current_step blocksize x s")
    case (Inl e)
    then show ?thesis by simp
  next
    case (Inr s')
    with update_group_fails [OF assms(2,3), of K_local ub lb blocksize s]
    have "x \<noteq> a" by auto
    with Cons.prems have "a \<in> set xs" by simp
    from Cons.IH [OF this, of s'] Inr show ?thesis by simp
  qed
qed

lemma pair_in_py_range:
  assumes "0 \<le> r" and "r < int n"
  shows "2 * (r div 2) \<in> set (py_range 0 (int n) 2)"
proof -
  have "nat (r div 2) < nat ((int n + 1) div 2)"
    using assms by (simp add: nat_less_iff) linarith
  moreover have "2 * (r div 2) = int (nat (r div 2)) * 2"
    using assms by simp
  ultimately have "2 * (r div 2) \<in> (\<lambda>k. int k * 2) ` {0..<nat ((int n + 1) div 2)}"
    by (intro image_eqI [where x = "nat (r div 2)"]) simp_all
  then show ?thesis
    by (simp add: py_range_def add.commute)
qed

lemma first_step_fails:
  fixes w :: "('a::ring_1) env"
  assumes "0 \<le> comm_rank w" and "comm_rank w < int (comm_size w)"
  shows "\<exists>e. update_maps w s K_local ub lb 1 blocksize = Inl e"
proof -
  let ?a = "2 * (comm_rank w div 2)"
  have "?a \<in> set (py_range 0 (int (comm_size w)) (2 ^ 1))"
    using pair_in_py_range [OF assms] by simp
  moreover have "?a \<le> comm_rank w" by linarith
  moreover have "comm_rank w \<le> ?a + 2 ^ 1 - 1" by simp
  ultimately show ?thesis
    unfolding update_maps_def by (rule update_groups_fails)
qed


lemma reduction_steps_fail:
  fixes w :: "('a::ring_1) env"
  assumes "2 \<le> comm_size w" and "0 \<le> comm_rank w" and "comm_rank w < int (comm_size w)"
  shows "\<exists>e. reduction_steps w K_local ub lb blocksize
                [1..<ilog2 (comm_size w) + 1] s = Inl e"
proof -
  have "0 < ilog2 (comm_size w)"
    using assms(1) by (simp add: ilog2_ge_2)
  then have steps: "[1..<ilog2 (comm_size w) + 1] = 1 # [Suc 1..<ilog2 (comm_size w) + 1]"
    by (intro upt_conv_Cons) simp
  obtain e where "update_maps w s K_local ub lb 1 blocksize = Inl e"
    using first_step_fails [OF assms(2,3), of s K_local ub lb blocksize] by blast
  then show ?thesis
    unfolding steps by simp
qed

lemma pdiv_localmap_state_fails:
  fixes w :: "('a::ring_1) env"
  assumes "2 \<le> comm_size w" and "0 \<le> comm_rank w" and "comm_rank w < int (comm_size w)"
  shows "\<exists>e. pdiv_localmap_state w inbox K_local ub lb blocksize = Inl e"
proof (cases "invert_partition w K_local")
  case (Inl e)
  then show ?thesis by (simp add: pdiv_localmap_state_def)
next
  case (Inr K_inv)
  obtain e where "reduction_steps w K_inv ub lb blocksize [1..<ilog2 (comm_size w) + 1]
      (initialize_matrixmaps K_inv blocksize, initialize_crossmaps K_inv blocksize, inbox)
      = Inl e"
    using reduction_steps_fail [OF assms] by blast
  with Inr show ?thesis by (simp add: pdiv_localmap_state_def)
qed

text \<open>
  C2. \<open>get_nextprocess_matrixmap\<close> returns \<open>None\<close>, so \<open>update_crossmap\<close> fails on
  every input: with TypeError as soon as the worker's own maps have the slots the rule
  reads, and a rule given a real list instead of \<open>None\<close> would next fail with NameError
  where the module does not bind \<open>blocksize\<close>. Hence with two or more processes the
  first reduction step, and so \<open>pdiv_localmap\<close>, never completes, for any rank, input
  and environment.
\<close>

theorem reduction_step_never_completes:
  fixes w :: "('a::ring_1) env"
  assumes "2 \<le> comm_size w" and "0 \<le> comm_rank w" and "comm_rank w < int (comm_size w)"
  shows "get_nextprocess_matrixmap l_M middle_process = None
       \<and> (\<exists>e. update_crossmap w l_C l_M Bu_mid Bl_mid J middle_process blocksize = Inl e)
       \<and> (8 \<le> length l_M \<longrightarrow>
            update_crossmap w l_C l_M Bu_mid Bl_mid J middle_process blocksize = Inl TypeError)
       \<and> (8 \<le> length l_M \<and> 8 \<le> length l_N \<and> g_blocksize w = None \<longrightarrow>
            update_crossmap_upper w l_M (Some l_N) l_C Bu_mid J = Inl NameError)
       \<and> (\<exists>e. update_maps w s K_local l_upperbridges l_lowerbridges 1 blocksize = Inl e)
       \<and> (\<exists>e. pdiv_localmap w inbox K_local l_upperbridges l_lowerbridges blocksize = Inl e)"
proof -
  have a: "get_nextprocess_matrixmap l_M middle_process = None"
    by (simp add: get_nextprocess_matrixmap_def)
  have b: "\<exists>e. update_crossmap w l_C l_M Bu_mid Bl_mid J middle_process blocksize = Inl e"
    by (rule update_crossmap_fails)
  have c: "8 \<le> length l_M \<longrightarrow>
            update_crossmap w l_C l_M Bu_mid Bl_mid J middle_process blocksize = Inl TypeError"
    by (simp add: update_crossmap_def get_nextprocess_matrixmap_def
        update_crossmap_upper_def update_crossmap_middle_def update_crossmap_lower_def)
  have d: "8 \<le> length l_M \<and> 8 \<le> length l_N \<and> g_blocksize w = None \<longrightarrow>
            update_crossmap_upper w l_M (Some l_N) l_C Bu_mid J = Inl NameError"
    by (simp add: update_crossmap_upper_def)
  have e: "\<exists>e. update_maps w s K_local l_upperbridges l_lowerbridges 1 blocksize = Inl e"
    by (rule first_step_fails [OF assms(2,3)])
  obtain x where "pdiv_localmap_state w inbox K_local l_upperbridges l_lowerbridges
                  blocksize = Inl x"
    using pdiv_localmap_state_fails [OF assms] by blast
  then have f: "\<exists>e. pdiv_localmap w inbox K_local l_upperbridges l_lowerbridges
                  blocksize = Inl e"
    by (simp add: pdiv_localmap_def)
  from a b c d e f show ?thesis by (intro conjI)
qed

theorem reduction_step_never_completes_witness:
  "2 \<le> comm_size (worker 2 0) \<and> 0 \<le> comm_rank (worker 2 0)
   \<and> comm_rank (worker 2 0) < int (comm_size (worker 2 0))
   \<and> 8 \<le> length (initialize_matrixmaps [[0 :: rat]] 1)
   \<and> g_blocksize (worker 2 0) = None
   \<and> update_crossmap (worker 2 0) (initialize_crossmaps [[0]] 1)
         (initialize_matrixmaps [[0]] 1) [[1]] [[1]] [[4 / 3, 2 / 3], [2 / 3, 4 / 3]] 0 1
       = Inl TypeError
   \<and> update_crossmap_upper (worker 2 0) (initialize_matrixmaps [[0]] 1)
         (Some (initialize_matrixmaps [[0]] 1)) (initialize_crossmaps [[0]] 1)
         [[1]] [[4 / 3, 2 / 3], [2 / 3, 4 / 3]]
       = Inl NameError
   \<and> (\<exists>e. pdiv_localmap (worker 2 0)
          [((1, 3), [[1 / 2]]), ((1, 4), [[1 / 2]]), ((1, 5), [[1 / 2]])]
          [[2]] [[[1]]] [[[1]]] 1 = Inl e)"
proof -
  let ?M0 = "initialize_matrixmaps [[0 :: rat]] 1"
  have h1: "2 \<le> comm_size (worker 2 0)"
    by (simp add: worker_def)
  have h2: "0 \<le> comm_rank (worker 2 0)"
    by (simp add: worker_def)
  have h3: "comm_rank (worker 2 0) < int (comm_size (worker 2 0))"
    by (simp add: worker_def)
  have h4: "8 \<le> length ?M0"
    by (simp add: initialize_matrixmaps_def)
  have h5: "g_blocksize (worker 2 0) = None"
    by (simp add: worker_def)
  note inst = reduction_step_never_completes [OF h1 h2 h3,
      where l_M = ?M0 and l_N = ?M0 and l_C = "initialize_crossmaps [[0]] 1"
        and Bu_mid = "[[1]]" and Bl_mid = "[[1]]"
        and J = "[[4 / 3, 2 / 3], [2 / 3, 4 / 3]]" and middle_process = 0
        and blocksize = 1 and K_local = "[[2]]" and l_upperbridges = "[[[1]]]"
        and l_lowerbridges = "[[[1]]]"
        and inbox = "[((1, 3), [[1 / 2]]), ((1, 4), [[1 / 2]]), ((1, 5), [[1 / 2]])]"]
  from inst h4 have a: "update_crossmap (worker 2 0) (initialize_crossmaps [[0]] 1)
         ?M0 [[1]] [[1]] [[4 / 3, 2 / 3], [2 / 3, 4 / 3]] 0 1 = Inl TypeError"
    by blast
  from inst h4 h5 have b: "update_crossmap_upper (worker 2 0) ?M0 (Some ?M0)
         (initialize_crossmaps [[0]] 1) [[1]] [[4 / 3, 2 / 3], [2 / 3, 4 / 3]]
       = Inl NameError"
    by blast
  from inst have c: "\<exists>e. pdiv_localmap (worker 2 0)
          [((1, 3), [[1 / 2]]), ((1, 4), [[1 / 2]]), ((1, 5), [[1 / 2]])]
          [[2]] [[[1]]] [[[1]]] 1 = Inl e"
    by blast
  from h1 h2 h3 h4 h5 a b c show ?thesis
    by (intro conjI)
qed

subsection \<open>The matrix-map rules\<close>

lemma upper_in_place:
  fixes l_M :: "('a::ring_1) ndarray list"
  assumes "12 \<le> length l_M"
  shows "\<exists>M. update_matrixmap_upper l_M UUR DUR ULL DLL Bu_mid Bl_mid J11 J12 J22 = Inr M
           \<and> M ! 2 = matmul4 (l_M ! 2) Bu_mid J11 DUR
           \<and> M ! 3 = matmul4 (l_M ! 3) Bu_mid J11 DUR
           \<and> M ! 6 = matmul4 DLL Bl_mid J22 (l_M ! 6)
           \<and> M ! 7 = matmul4 DLL Bl_mid J22 (l_M ! 7)
           \<and> M ! 4 = madd (l_M ! 4) (matmul4 (M ! 2) Bu_mid J12 ULL)
           \<and> M ! 5 = madd (l_M ! 5) (matmul4 (M ! 3) Bu_mid J12 ULL)
           \<and> M ! 8 = madd (l_M ! 8) (matmul4 (M ! 2) Bu_mid J12 (M ! 6))
           \<and> M ! 9 = madd (l_M ! 9) (matmul4 (M ! 2) Bu_mid J12 (M ! 7))
           \<and> M ! 10 = madd (l_M ! 10) (matmul4 (M ! 3) Bu_mid J12 (M ! 6))
           \<and> M ! 11 = madd (l_M ! 11) (matmul4 (M ! 3) Bu_mid J12 (M ! 7))"
  using assms by (simp add: update_matrixmap_upper_def Let_def)

lemma lower_in_place:
  fixes l_M :: "('a::ring_1) ndarray list"
  assumes "12 \<le> length l_M"
  shows "\<exists>M. update_matrixmap_lower l_M UUR DUR ULL DLL Bu_mid Bl_mid J11 J21 J22 = Inr M
           \<and> M ! 4 = matmul4 (l_M ! 5) Bl_mid J22 ULL
           \<and> M ! 5 = matmul4 (M ! 4) Bl_mid J22 ULL"
  using assms by (simp add: update_matrixmap_lower_def Let_def)

lemma upper_differs_from_prestate:
  "update_matrixmap_upper (initialize_matrixmaps [[0 :: int]] 1)
     [[2]] [[2]] [[2]] [[2]] [[2]] [[2]] [[2]] [[2]] [[2]]
   \<noteq> update_matrixmap_upper_prestate (initialize_matrixmaps [[0 :: int]] 1)
     [[2]] [[2]] [[2]] [[2]] [[2]] [[2]] [[2]] [[2]] [[2]]"
  by code_simp

lemma lower_differs_from_prestate:
  "update_matrixmap_lower (initialize_matrixmaps [[0 :: int]] 1)
     [[2]] [[2]] [[2]] [[2]] [[2]] [[2]] [[2]] [[2]] [[2]]
   \<noteq> update_matrixmap_lower_prestate (initialize_matrixmaps [[0 :: int]] 1)
     [[2]] [[2]] [[2]] [[2]] [[2]] [[2]] [[2]] [[2]] [[2]]"
  by code_simp

text \<open>
  C5. The matrix-map rules read slots they have already assigned in the same call. In
  \<open>update_matrixmap_upper\<close> the increments of slots 4, 5, 8, 9, 10 and 11 are built
  from the new values of slots 2, 3, 6 and 7; in \<open>update_matrixmap_lower\<close> slot 5 is
  built from the new value of slot 4. On the freshly initialised maps, with every other
  block equal to \<open>[[2]]\<close>, each rule gives a result different from the rule that
  evaluates every right-hand side on the pre-update maps.
\<close>

theorem matrixmap_rules_read_updated_slots:
  fixes l_M :: "('a::ring_1) ndarray list"
  assumes "12 \<le> length l_M"
  shows "(\<exists>M. update_matrixmap_upper l_M UUR DUR ULL DLL Bu_mid Bl_mid J11 J12 J22 = Inr M
           \<and> M ! 2 = matmul4 (l_M ! 2) Bu_mid J11 DUR
           \<and> M ! 3 = matmul4 (l_M ! 3) Bu_mid J11 DUR
           \<and> M ! 6 = matmul4 DLL Bl_mid J22 (l_M ! 6)
           \<and> M ! 7 = matmul4 DLL Bl_mid J22 (l_M ! 7)
           \<and> M ! 4 = madd (l_M ! 4) (matmul4 (M ! 2) Bu_mid J12 ULL)
           \<and> M ! 5 = madd (l_M ! 5) (matmul4 (M ! 3) Bu_mid J12 ULL)
           \<and> M ! 8 = madd (l_M ! 8) (matmul4 (M ! 2) Bu_mid J12 (M ! 6))
           \<and> M ! 9 = madd (l_M ! 9) (matmul4 (M ! 2) Bu_mid J12 (M ! 7))
           \<and> M ! 10 = madd (l_M ! 10) (matmul4 (M ! 3) Bu_mid J12 (M ! 6))
           \<and> M ! 11 = madd (l_M ! 11) (matmul4 (M ! 3) Bu_mid J12 (M ! 7)))
       \<and> (\<exists>M. update_matrixmap_lower l_M UUR DUR ULL DLL Bu_mid Bl_mid J11 J21 J22 = Inr M
           \<and> M ! 4 = matmul4 (l_M ! 5) Bl_mid J22 ULL
           \<and> M ! 5 = matmul4 (M ! 4) Bl_mid J22 ULL)
       \<and> update_matrixmap_upper (initialize_matrixmaps [[0 :: int]] 1)
            [[2]] [[2]] [[2]] [[2]] [[2]] [[2]] [[2]] [[2]] [[2]]
          \<noteq> update_matrixmap_upper_prestate (initialize_matrixmaps [[0 :: int]] 1)
            [[2]] [[2]] [[2]] [[2]] [[2]] [[2]] [[2]] [[2]] [[2]]
       \<and> update_matrixmap_lower (initialize_matrixmaps [[0 :: int]] 1)
            [[2]] [[2]] [[2]] [[2]] [[2]] [[2]] [[2]] [[2]] [[2]]
          \<noteq> update_matrixmap_lower_prestate (initialize_matrixmaps [[0 :: int]] 1)
            [[2]] [[2]] [[2]] [[2]] [[2]] [[2]] [[2]] [[2]] [[2]]"
  using upper_in_place [OF assms] lower_in_place [OF assms]
    upper_differs_from_prestate lower_differs_from_prestate
  by (intro conjI)

theorem matrixmap_rules_read_updated_slots_witness:
  "12 \<le> length (initialize_matrixmaps [[0 :: int]] 1)
   \<and> (\<exists>M. update_matrixmap_upper (initialize_matrixmaps [[0 :: int]] 1)
             [[2]] [[2]] [[2]] [[2]] [[2]] [[2]] [[2]] [[2]] [[2]] = Inr M
          \<and> M ! 3 = [[8]] \<and> M ! 5 = [[64]])
   \<and> (\<exists>M. update_matrixmap_lower (initialize_matrixmaps [[0 :: int]] 1)
             [[2]] [[2]] [[2]] [[2]] [[2]] [[2]] [[2]] [[2]] [[2]] = Inr M
          \<and> M ! 4 = [[0]] \<and> M ! 5 = [[0]])"
proof -
  let ?M0 = "initialize_matrixmaps [[0 :: int]] 1"
  have h: "12 \<le> length ?M0"
    by (simp add: initialize_matrixmaps_def)
  have e3: "matmul4 (?M0 ! 3) [[2]] [[2]] [[2]] = [[8]]"
    by code_simp
  have e5: "madd (?M0 ! 5) (matmul4 [[8]] [[2]] [[2]] [[2]]) = [[64]]"
    by code_simp
  have e4: "matmul4 (?M0 ! 5) [[2]] [[2]] [[2]] = [[0]]"
    by code_simp
  have e4': "matmul4 [[0 :: int]] [[2]] [[2]] [[2]] = [[0]]"
    by code_simp
  note inst = matrixmap_rules_read_updated_slots [OF h,
      of "[[2]]" "[[2]]" "[[2]]" "[[2]]" "[[2]]" "[[2]]" "[[2]]" "[[2]]" "[[2]]" "[[2]]"]
  from inst obtain M where
    r: "update_matrixmap_upper ?M0 [[2]] [[2]] [[2]] [[2]] [[2]] [[2]] [[2]] [[2]] [[2]]
          = Inr M"
    and m3: "M ! 3 = matmul4 (?M0 ! 3) [[2]] [[2]] [[2]]"
    and m5: "M ! 5 = madd (?M0 ! 5) (matmul4 (M ! 3) [[2]] [[2]] [[2]])"
    by blast
  from m3 have m3': "M ! 3 = [[8]]"
    unfolding e3 .
  from m5 have "M ! 5 = [[64]]"
    unfolding m3' e5 .
  with r m3' have up: "\<exists>M. update_matrixmap_upper ?M0
             [[2]] [[2]] [[2]] [[2]] [[2]] [[2]] [[2]] [[2]] [[2]] = Inr M
          \<and> M ! 3 = [[8]] \<and> M ! 5 = [[64]]"
    by blast
  from inst obtain N where
    s: "update_matrixmap_lower ?M0 [[2]] [[2]] [[2]] [[2]] [[2]] [[2]] [[2]] [[2]] [[2]]
          = Inr N"
    and n4: "N ! 4 = matmul4 (?M0 ! 5) [[2]] [[2]] [[2]]"
    and n5: "N ! 5 = matmul4 (N ! 4) [[2]] [[2]] [[2]]"
    by blast
  from n4 have n4': "N ! 4 = [[0]]"
    unfolding e4 .
  from n5 have "N ! 5 = [[0]]"
    unfolding n4' e4' .
  with s n4' have lo: "\<exists>M. update_matrixmap_lower ?M0
             [[2]] [[2]] [[2]] [[2]] [[2]] [[2]] [[2]] [[2]] [[2]] = Inr M
          \<and> M ! 4 = [[0]] \<and> M ! 5 = [[0]]"
    by blast
  from h up lo show ?thesis by (intro conjI)
qed

subsection \<open>The cross-map rules\<close>

text \<open>
  C6. Whenever \<open>update_crossmap_lower\<close> is given a list of maps for the partner and
  the module binds \<open>blocksize\<close>, it returns, and it has added to slot 1 the very block
  it has added to slot 0: \<open>M5 @ Bl_mid @ J21 @ M1_ip1\<close>.
\<close>

theorem crossmap_lower_same_increment:
  fixes w :: "('a::ring_1) env"
  assumes "6 \<le> length l_M" and "6 \<le> length l_M_ip1" and "8 \<le> length l_C"
    and "g_blocksize w = Some blocksize"
  shows "\<exists>l_C'. update_crossmap_lower w l_M (Some l_M_ip1) l_C Bl_mid J = Inr l_C'
           \<and> l_C' ! 0 = madd (l_C ! 0)
                (matmul4 (l_M ! 4) Bl_mid
                   (slice2 J (int blocksize) (2 * int blocksize) 0 (int blocksize))
                   (l_M_ip1 ! 0))
           \<and> l_C' ! 1 = madd (l_C ! 1)
                (matmul4 (l_M ! 4) Bl_mid
                   (slice2 J (int blocksize) (2 * int blocksize) 0 (int blocksize))
                   (l_M_ip1 ! 0))"
proof -
  from assms(3) have "l_C \<noteq> []"
    by auto
  with assms show ?thesis
    by (simp add: update_crossmap_lower_def Let_def)
qed

theorem crossmap_lower_same_increment_witness:
  "6 \<le> length (initialize_matrixmaps [[0 :: rat]] 1)
   \<and> 8 \<le> length (initialize_crossmaps [[0 :: rat]] 1)
   \<and> g_blocksize (worker_bound 2 1 1) = Some 1
   \<and> (\<exists>l_C'. update_crossmap_lower (worker_bound 2 1 1) (initialize_matrixmaps [[0]] 1)
                 (Some (initialize_matrixmaps [[0]] 1)) (initialize_crossmaps [[0]] 1)
                 [[2]] [[1, 2], [3, 4]] = Inr l_C'
             \<and> l_C' ! 0 = [[6]] \<and> l_C' ! 1 = [[6]])"
proof -
  let ?M0 = "initialize_matrixmaps [[0 :: rat]] 1"
  let ?C0 = "initialize_crossmaps [[0 :: rat]] 1"
  have h1: "6 \<le> length ?M0"
    by (simp add: initialize_matrixmaps_def)
  have h3: "8 \<le> length ?C0"
    by (simp add: initialize_crossmaps_def)
  have h4: "g_blocksize (worker_bound 2 1 1) = Some 1"
    by (simp add: worker_bound_def)
  have e0: "madd (?C0 ! 0) (matmul4 (?M0 ! 4) [[2]]
              (slice2 [[1, 2], [3, 4]] (int 1) (2 * int 1) 0 (int 1)) (?M0 ! 0)) = [[6]]"
    by code_simp
  have e1: "madd (?C0 ! 1) (matmul4 (?M0 ! 4) [[2]]
              (slice2 [[1, 2], [3, 4]] (int 1) (2 * int 1) 0 (int 1)) (?M0 ! 0)) = [[6]]"
    by code_simp
  from crossmap_lower_same_increment [OF h1 h1 h3 h4, of "[[2]]" "[[1, 2], [3, 4]]"]
  have "\<exists>l_C'. update_crossmap_lower (worker_bound 2 1 1) ?M0 (Some ?M0) ?C0
                 [[2]] [[1, 2], [3, 4]] = Inr l_C'
             \<and> l_C' ! 0 = [[6]] \<and> l_C' ! 1 = [[6]]"
    unfolding e0 e1 .
  with h1 h3 h4 show ?thesis by (intro conjI)
qed

lemma crossmap_upper_frame:
  "update_crossmap_upper w l_M l_M_ip1 l_C Bu_mid J = Inr l_C'
     \<Longrightarrow> length l_C' = length l_C \<and> drop 8 l_C' = drop 8 l_C"
  by (auto simp: update_crossmap_upper_def Let_def drop_update_cancel
      split: if_splits option.splits)

lemma crossmap_middle_frame:
  "update_crossmap_middle w l_M l_M_ip1 l_C Bu_mid Bl_mid J = Inr l_C'
     \<Longrightarrow> length l_C' = length l_C \<and> drop 8 l_C' = drop 8 l_C"
  by (auto simp: update_crossmap_middle_def Let_def drop_update_cancel
      split: if_splits option.splits)

lemma crossmap_lower_frame:
  "update_crossmap_lower w l_M l_M_ip1 l_C Bl_mid J = Inr l_C'
     \<Longrightarrow> length l_C' = length l_C \<and> drop 8 l_C' = drop 8 l_C"
  by (auto simp: update_crossmap_lower_def Let_def drop_update_cancel
      split: if_splits option.splits)

lemma update_crossmap_frame:
  "update_crossmap w l_C l_M Bu_mid Bl_mid J middle_process blocksize = Inr l_C'
     \<Longrightarrow> length l_C' = length l_C \<and> drop 8 l_C' = drop 8 l_C"
  unfolding update_crossmap_def Let_def
  by (auto dest: crossmap_upper_frame crossmap_middle_frame crossmap_lower_frame
      split: if_splits)

lemma update_group_frame:
  assumes "update_group w K_local ub lb current_step blocksize active_process
             (l_M, l_C, inbox) = Inr (l_M', l_C', inbox')"
  shows "length l_C' = length l_C \<and> drop 8 l_C' = drop 8 l_C"
proof (cases "active_process \<le> comm_rank w
              \<and> comm_rank w \<le> active_process + 2 ^ current_step - 1")
  case False
  then show ?thesis
    using assms update_group_skips [of active_process w current_step K_local ub lb blocksize
        "(l_M, l_C, inbox)"] by simp
next
  case True
  with assms obtain Bu Bl J mid where
    "update_crossmap w l_C l_M Bu Bl J mid blocksize = Inr l_C'"
    unfolding update_group_def Let_def
    by (auto simp: ebind_eq_Inr split: prod.splits)
  then show ?thesis by (rule update_crossmap_frame)
qed

lemma update_groups_frame:
  "update_groups w K_local ub lb current_step blocksize as (l_M, l_C, inbox)
     = Inr (l_M', l_C', inbox')
   \<Longrightarrow> length l_C' = length l_C \<and> drop 8 l_C' = drop 8 l_C"
proof (induction as arbitrary: l_M l_C inbox)
  case Nil
  then show ?case by simp
next
  case (Cons a as)
  from Cons.prems obtain s where
    s: "update_group w K_local ub lb current_step blocksize a (l_M, l_C, inbox) = Inr s"
    and rest: "update_groups w K_local ub lb current_step blocksize as s
                 = Inr (l_M', l_C', inbox')"
    by (auto simp: ebind_eq_Inr)
  obtain M1 C1 I1 where s1: "s = (M1, C1, I1)" by (cases s) auto
  from update_group_frame [OF s [unfolded s1]] Cons.IH [OF rest [unfolded s1]]
  show ?case by simp
qed

lemma reduction_steps_frame:
  "reduction_steps w K_local ub lb blocksize steps (l_M, l_C, inbox)
     = Inr (l_M', l_C', inbox')
   \<Longrightarrow> length l_C' = length l_C \<and> drop 8 l_C' = drop 8 l_C"
proof (induction steps arbitrary: l_M l_C inbox)
  case Nil
  then show ?case by simp
next
  case (Cons k steps)
  from Cons.prems obtain s where
    s: "update_maps w (l_M, l_C, inbox) K_local ub lb k blocksize = Inr s"
    and rest: "reduction_steps w K_local ub lb blocksize steps s = Inr (l_M', l_C', inbox')"
    by (auto simp: ebind_eq_Inr)
  obtain M1 C1 I1 where s1: "s = (M1, C1, I1)" by (cases s) auto
  from update_groups_frame [OF s [unfolded s1 update_maps_def]]
    Cons.IH [OF rest [unfolded s1]]
  show ?case by simp
qed

lemma drop_8_crossmaps:
  "drop 8 (initialize_crossmaps K_local blocksize) = replicate 4 (zeros blocksize blocksize)"
  by (simp add: initialize_crossmaps_def upt_12 eval_nat_numeral)

text \<open>
  C8. The three cross-map rules write slots 0 to 7 only: whenever one returns, the list
  has kept its length and its part from slot 8 on. \<open>initialize_crossmaps\<close> makes
  twelve slots, of which slots 8 to 11 are zero blocks, and so they are still zero
  blocks in whatever cross maps a run of \<open>pdiv_localmap\<close> ends with.
\<close>

theorem crossmap_slots_8_to_11_stay_zero:
  fixes w :: "('a::ring_1) env"
  shows "(update_crossmap_upper w l_M l_N l_C Bu_mid J = Inr l_C'
            \<longrightarrow> length l_C' = length l_C \<and> drop 8 l_C' = drop 8 l_C)
       \<and> (update_crossmap_middle w l_M l_N l_C Bu_mid Bl_mid J = Inr l_C'
            \<longrightarrow> length l_C' = length l_C \<and> drop 8 l_C' = drop 8 l_C)
       \<and> (update_crossmap_lower w l_M l_N l_C Bl_mid J = Inr l_C'
            \<longrightarrow> length l_C' = length l_C \<and> drop 8 l_C' = drop 8 l_C)
       \<and> length (initialize_crossmaps K_local blocksize) = 12
       \<and> drop 8 (initialize_crossmaps K_local blocksize)
           = replicate 4 (zeros blocksize blocksize)
       \<and> (pdiv_localmap_state w inbox K_local l_upperbridges l_lowerbridges blocksize
             = Inr (r, l_M_end, l_C_end, inbox_end)
            \<longrightarrow> length l_C_end = 12
                \<and> drop 8 l_C_end = replicate 4 (zeros blocksize blocksize))"
proof -
  have run: "length l_C_end = 12
             \<and> drop 8 l_C_end = replicate 4 (zeros blocksize blocksize)"
    if "pdiv_localmap_state w inbox K_local l_upperbridges l_lowerbridges blocksize
          = Inr (r, l_M_end, l_C_end, inbox_end)"
  proof -
    from that obtain K_inv where
      "reduction_steps w K_inv l_upperbridges l_lowerbridges blocksize
         [1..<ilog2 (comm_size w) + 1]
         (initialize_matrixmaps K_inv blocksize, initialize_crossmaps K_inv blocksize, inbox)
       = Inr (l_M_end, l_C_end, inbox_end)"
      unfolding pdiv_localmap_state_def Let_def by (auto simp: ebind_eq_Inr)
    from reduction_steps_frame [OF this] show ?thesis
      by (simp add: drop_8_crossmaps) (simp add: initialize_crossmaps_def)
  qed
  show ?thesis
    using crossmap_upper_frame [of w l_M l_N l_C Bu_mid J l_C']
      crossmap_middle_frame [of w l_M l_N l_C Bu_mid Bl_mid J l_C']
      crossmap_lower_frame [of w l_M l_N l_C Bl_mid J l_C']
      drop_8_crossmaps [of K_local blocksize] run
    by (simp add: initialize_crossmaps_def)
qed

theorem crossmap_slots_8_to_11_stay_zero_witness:
  "update_crossmap_upper (worker_bound 2 0 1) (initialize_matrixmaps [[0]] 1)
      (Some (initialize_matrixmaps [[0]] 1)) (initialize_crossmaps [[0]] 1)
      [[2]] [[1, 2], [3, 4]]
    = Inr [[[0]], [[0]], [[0]], [[4]], [[0]], [[0]], [[0]], [[4]],
           [[0]], [[0]], [[0]], [[0]]]
   \<and> drop 8 [[[0]], [[0]], [[0]], [[4]], [[0]], [[0]], [[0]], [[4]],
              [[0]], [[0]], [[0]], [[0 :: rat]]]
       = drop 8 (initialize_crossmaps [[0]] 1)
   \<and> update_crossmap_middle (worker_bound 2 0 1) (initialize_matrixmaps [[0]] 1)
      (Some (initialize_matrixmaps [[0]] 1)) (initialize_crossmaps [[0]] 1)
      [[2]] [[5]] [[1, 2], [3, 4]]
    = Inr [[[0]], [[0]], [[2]], [[0]], [[0]], [[20]], [[0]], [[0]],
           [[0]], [[0]], [[0]], [[0]]]
   \<and> drop 8 [[[0]], [[0]], [[2]], [[0]], [[0]], [[20]], [[0]], [[0]],
              [[0]], [[0]], [[0]], [[0 :: rat]]]
       = drop 8 (initialize_crossmaps [[0]] 1)
   \<and> update_crossmap_lower (worker_bound 2 1 1) (initialize_matrixmaps [[0]] 1)
      (Some (initialize_matrixmaps [[0]] 1)) (initialize_crossmaps [[0]] 1)
      [[2]] [[1, 2], [3, 4]]
    = Inr [[[6]], [[6]], [[0]], [[0]], [[6]], [[0]], [[0]], [[0]],
           [[0]], [[0]], [[0]], [[0]]]
   \<and> drop 8 [[[6]], [[6]], [[0]], [[0]], [[6]], [[0]], [[0]], [[0]],
              [[0]], [[0]], [[0]], [[0 :: rat]]]
       = drop 8 (initialize_crossmaps [[0]] 1)
   \<and> pdiv_localmap_state (worker 1 0) [] [[2]] [[[1]]] [[[1]]] 1
       = Inr (([[1 / 2]], [[[1]]], [[[1]]]),
              initialize_matrixmaps [[0]] 1, initialize_crossmaps [[0]] 1, [])
   \<and> drop 8 (initialize_crossmaps [[0 :: rat]] 1) = replicate 4 (zeros 1 1)"
proof -
  let ?M0 = "initialize_matrixmaps [[0 :: rat]] 1"
  let ?C0 = "initialize_crossmaps [[0 :: rat]] 1"
  let ?Cu = "[[[0]], [[0]], [[0]], [[4]], [[0]], [[0]], [[0]], [[4]],
              [[0]], [[0]], [[0]], [[0 :: rat]]]"
  let ?Cm = "[[[0]], [[0]], [[2]], [[0]], [[0]], [[20]], [[0]], [[0]],
              [[0]], [[0]], [[0]], [[0 :: rat]]]"
  let ?Cl = "[[[6]], [[6]], [[0]], [[0]], [[6]], [[0]], [[0]], [[0]],
              [[0]], [[0]], [[0]], [[0 :: rat]]]"
  have upper: "update_crossmap_upper (worker_bound 2 0 1) ?M0 (Some ?M0) ?C0
      [[2]] [[1, 2], [3, 4]] = Inr ?Cu"
    by code_simp
  have middle: "update_crossmap_middle (worker_bound 2 0 1) ?M0 (Some ?M0) ?C0
      [[2]] [[5]] [[1, 2], [3, 4]] = Inr ?Cm"
    by code_simp
  have lower: "update_crossmap_lower (worker_bound 2 1 1) ?M0 (Some ?M0) ?C0
      [[2]] [[1, 2], [3, 4]] = Inr ?Cl"
    by code_simp
  have run: "pdiv_localmap_state (worker 1 0) [] [[2]] [[[1]]] [[[1]]] 1
       = Inr (([[1 / 2]], [[[1]]], [[[1]]]), ?M0, ?C0, [])"
    by code_simp
  from upper crossmap_slots_8_to_11_stay_zero
    [where w = "worker_bound 2 0 1" and l_M = ?M0 and l_N = "Some ?M0" and l_C = ?C0
       and Bu_mid = "[[2]]" and J = "[[1, 2], [3, 4]]" and l_C' = ?Cu]
  have a: "drop 8 ?Cu = drop 8 ?C0"
    by blast
  from middle crossmap_slots_8_to_11_stay_zero
    [where w = "worker_bound 2 0 1" and l_M = ?M0 and l_N = "Some ?M0" and l_C = ?C0
       and Bu_mid = "[[2]]" and Bl_mid = "[[5]]" and J = "[[1, 2], [3, 4]]" and l_C' = ?Cm]
  have b: "drop 8 ?Cm = drop 8 ?C0"
    by blast
  from lower crossmap_slots_8_to_11_stay_zero
    [where w = "worker_bound 2 1 1" and l_M = ?M0 and l_N = "Some ?M0" and l_C = ?C0
       and Bl_mid = "[[2]]" and J = "[[1, 2], [3, 4]]" and l_C' = ?Cl]
  have c: "drop 8 ?Cl = drop 8 ?C0"
    by blast
  from run crossmap_slots_8_to_11_stay_zero
    [where w = "worker 1 0" and inbox = "[]" and K_local = "[[2]]"
       and l_upperbridges = "[[[1]]]" and l_lowerbridges = "[[[1]]]" and blocksize = 1
       and r = "([[1 / 2]], [[[1]]], [[[1]]])" and l_M_end = ?M0 and l_C_end = ?C0
       and inbox_end = "[]"]
  have d: "drop 8 ?C0 = replicate 4 (zeros 1 1)"
    by blast
  from upper a middle b lower c run d show ?thesis
    by (intro conjI)
qed

subsection \<open>The coupling matrix\<close>

lemma slice_nat:
  "slice (int a) (int b) xs = take (b - a) (drop a xs)"
proof (cases "a < length xs")
  case False
  then show ?thesis
    by (simp add: slice_def py_index_def Let_def min_def)
next
  case True
  show ?thesis
  proof (cases "b \<le> length xs")
    case True
    with \<open>a < length xs\<close> show ?thesis
      by (simp add: slice_def py_index_def Let_def min_def)
  next
    case False
    with \<open>a < length xs\<close> show ?thesis
      by (simp add: slice_def py_index_def Let_def min_def)
  qed
qed

lemma slice2_nat:
  "slice2 A (int r0) (int r1) (int c0) (int c1) =
     map (\<lambda>row. take (c1 - c0) (drop c0 row)) (take (r1 - r0) (drop r0 A))"
  by (simp add: slice2_def slice_nat)

lemma slice2_eqI:
  assumes "length X = r1 - r0" and "r1 \<le> length A"
    and "\<And>i. i < r1 - r0 \<Longrightarrow> length (X ! i) = c1 - c0"
    and "\<And>i. i < r1 - r0 \<Longrightarrow> c1 \<le> length (A ! (r0 + i))"
    and "\<And>i j. i < r1 - r0 \<Longrightarrow> j < c1 - c0 \<Longrightarrow> A ! (r0 + i) ! (c0 + j) = X ! i ! j"
  shows "slice2 A (int r0) (int r1) (int c0) (int c1) = X"
proof (rule nth_equalityI)
  show len: "length (slice2 A (int r0) (int r1) (int c0) (int c1)) = length X"
    using assms(1,2) by (simp add: slice2_nat)
  fix i
  assume "i < length (slice2 A (int r0) (int r1) (int c0) (int c1))"
  with len assms(1) have i: "i < r1 - r0" by simp
  with assms(2) have row: "slice2 A (int r0) (int r1) (int c0) (int c1) ! i
      = take (c1 - c0) (drop c0 (A ! (r0 + i)))"
    by (simp add: slice2_nat)
  show "slice2 A (int r0) (int r1) (int c0) (int c1) ! i = X ! i"
    unfolding row
  proof (rule nth_equalityI)
    show "length (take (c1 - c0) (drop c0 (A ! (r0 + i)))) = length (X ! i)"
      using assms(3) [OF i] assms(4) [OF i] by simp
    fix j
    assume "j < length (take (c1 - c0) (drop c0 (A ! (r0 + i))))"
    then have j: "j < c1 - c0" by simp
    with assms(4) [OF i] assms(5) [OF i j]
    show "take (c1 - c0) (drop c0 (A ! (r0 + i))) ! j = X ! i ! j"
      by simp
  qed
qed

lemma length_setslice2 [simp]: "length (setslice2 A r0 r1 c0 c1 B) = length A"
  by (simp add: setslice2_def)

lemma length_nth_setslice2 [simp]:
  "i < length A \<Longrightarrow> length (setslice2 A r0 r1 c0 c1 B ! i) = length (A ! i)"
  by (simp add: setslice2_def)

lemma nth_nth_setslice2:
  "i < length A \<Longrightarrow> j < length (A ! i) \<Longrightarrow>
     setslice2 A r0 r1 c0 c1 B ! i ! j =
       (if r0 \<le> i \<and> i < r1 \<and> c0 \<le> j \<and> j < c1 then B ! (i - r0) ! (j - c0) else A ! i ! j)"
  by (simp add: setslice2_def)

lemma is_block_nth: "is_block n A \<Longrightarrow> i < n \<Longrightarrow> length (A ! i) = n"
  by (simp add: is_block_def list_all_length)

lemma is_block_length: "is_block n A \<Longrightarrow> length A = n"
  by (simp add: is_block_def)

lemma is_block_ncols: "is_block n A \<Longrightarrow> ncols A = n"
  by (cases A) (auto simp: is_block_def ncols_def)

lemma is_block_identity: "is_block n (identity n)"
  by (simp add: is_block_def identity_def list_all_length)

lemma is_block_mneg: "is_block n A \<Longrightarrow> is_block n (mneg A)"
  by (simp add: is_block_def mneg_def list_all_length)

lemma is_block_matmul: "is_block n A \<Longrightarrow> is_block n B \<Longrightarrow> is_block n (matmul A B)"
  by (simp add: is_block_def matmul_def list_all_length is_block_ncols [unfolded is_block_def])

lemma coupling_blocks:
  fixes P Q :: "('a::ring_1) ndarray"
  assumes P: "is_block b P" and Q: "is_block b Q"
  defines "C \<equiv> setslice2 (setslice2 (setslice2 (setslice2 (zeros (2 * b) (2 * b))
                 0 b 0 b (identity b)) 0 b b (2 * b) P) b (2 * b) 0 b Q)
                 b (2 * b) b (2 * b) (identity b)"
  shows "is_block (2 * b) C"
    and "slice2 C 0 (int b) 0 (int b) = identity b"
    and "slice2 C 0 (int b) (int b) (2 * int b) = P"
    and "slice2 C (int b) (2 * int b) 0 (int b) = Q"
    and "slice2 C (int b) (2 * int b) (int b) (2 * int b) = identity b"
proof -
  have lenC: "length C = 2 * b"
    by (simp add: C_def zeros_def)
  have row: "length (C ! i) = 2 * b" if "i < 2 * b" for i
    using that by (simp add: C_def zeros_def)
  show "is_block (2 * b) C"
    using lenC row by (simp add: is_block_def list_all_length)
  have entry: "C ! i ! j =
      (if b \<le> i \<and> b \<le> j then identity b ! (i - b) ! (j - b)
       else if b \<le> i then Q ! (i - b) ! j
       else if b \<le> j then P ! i ! (j - b)
       else identity b ! i ! j)" if "i < 2 * b" and "j < 2 * b" for i j
    using that by (simp add: C_def nth_nth_setslice2 zeros_def)
  have two: "2 * int b = int (2 * b)" by simp
  have zero: "(0::int) = int 0" by simp
  show "slice2 C 0 (int b) 0 (int b) = identity b"
    unfolding zero
    by (rule slice2_eqI)
      (simp_all add: lenC row entry is_block_length [OF is_block_identity]
        is_block_nth [OF is_block_identity])
  show "slice2 C 0 (int b) (int b) (2 * int b) = P"
    unfolding zero two
    by (rule slice2_eqI)
      (simp_all add: lenC row entry is_block_length [OF P] is_block_nth [OF P])
  show "slice2 C (int b) (2 * int b) 0 (int b) = Q"
    unfolding zero two
    by (rule slice2_eqI)
      (simp_all add: lenC row entry is_block_length [OF Q] is_block_nth [OF Q])
  show "slice2 C (int b) (2 * int b) (int b) (2 * int b) = identity b"
    unfolding zero two
    by (rule slice2_eqI)
      (simp_all add: lenC row entry is_block_length [OF is_block_identity]
        is_block_nth [OF is_block_identity])
qed


text \<open>
  C3, as the code has it. For blocks of the size \<open>blocksize\<close>, \<open>get_J\<close> is the
  inverse of the coupling matrix of \<open>2 * blocksize\<close> rows and columns that has
  identity blocks on its diagonal, \<open>(- l_U[3]) @ Bl_mid\<close> as its upper right block and
  \<open>(- l_U[2]) @ Bu_mid\<close> as its lower left block. In the list that \<open>get_U\<close> returns,
  \<open>l_U[3]\<close> is DUL and \<open>l_U[2]\<close> is ULR.
\<close>

theorem get_J_coupling_layout:
  fixes w :: "('a::ring_1) env"
  assumes "4 \<le> length l_U"
    and "is_block blocksize (l_U ! 2)" and "is_block blocksize (l_U ! 3)"
    and "is_block blocksize Bu_mid" and "is_block blocksize Bl_mid"
  shows "\<exists>C. get_J_coupling l_U Bu_mid Bl_mid blocksize = Inr C
           \<and> get_J w l_U Bu_mid Bl_mid blocksize = linalg_inv w C
           \<and> is_block (2 * blocksize) C
           \<and> slice2 C 0 (int blocksize) 0 (int blocksize) = identity blocksize
           \<and> slice2 C 0 (int blocksize) (int blocksize) (2 * int blocksize)
               = matmul (mneg (l_U ! 3)) Bl_mid
           \<and> slice2 C (int blocksize) (2 * int blocksize) 0 (int blocksize)
               = matmul (mneg (l_U ! 2)) Bu_mid
           \<and> slice2 C (int blocksize) (2 * int blocksize) (int blocksize) (2 * int blocksize)
               = identity blocksize"
proof -
  have P: "is_block blocksize (matmul (mneg (l_U ! 3)) Bl_mid)"
    using assms(3,5) by (intro is_block_matmul is_block_mneg)
  have Q: "is_block blocksize (matmul (mneg (l_U ! 2)) Bu_mid)"
    using assms(2,4) by (intro is_block_matmul is_block_mneg)
  from assms(1) show ?thesis
    using coupling_blocks [OF P Q]
    by (simp add: get_J_def get_J_coupling_def Let_def)
qed

theorem get_J_coupling_layout_witness:
  "4 \<le> length [[[1]], [[2]], [[3]], [[4]], [[5]], [[6 :: rat]]]
   \<and> is_block 1 [[3 :: rat]] \<and> is_block 1 [[4 :: rat]]
   \<and> is_block 1 [[7 :: rat]] \<and> is_block 1 [[11 :: rat]]
   \<and> (\<exists>C. get_J_coupling [[[1]], [[2]], [[3]], [[4]], [[5]], [[6 :: rat]]] [[7]] [[11]] 1
              = Inr C
          \<and> get_J (worker 2 0) [[[1]], [[2]], [[3]], [[4]], [[5]], [[6]]] [[7]] [[11]] 1
              = exact_inv C
          \<and> slice2 C 0 1 1 2 = [[- 44]] \<and> slice2 C 1 2 0 1 = [[- 21]])"
proof -
  let ?U = "[[[1]], [[2]], [[3]], [[4]], [[5]], [[6 :: rat]]]"
  have h1: "4 \<le> length ?U" by simp
  have h2: "is_block 1 (?U ! 2)" by code_simp
  have h3: "is_block 1 (?U ! 3)" by code_simp
  have h4: "is_block 1 [[7 :: rat]]" by code_simp
  have h5: "is_block 1 [[11 :: rat]]" by code_simp
  have p: "matmul (mneg (?U ! 3)) [[11]] = [[- 44]]" by code_simp
  have q: "matmul (mneg (?U ! 2)) [[7]] = [[- 21]]" by code_simp
  have i: "linalg_inv (worker 2 0) = exact_inv" by (simp add: worker_def)
  from get_J_coupling_layout [OF h1 h2 h3 h4 h5, of "worker 2 0"]
  obtain C where "get_J_coupling ?U [[7]] [[11]] 1 = Inr C"
    and "get_J (worker 2 0) ?U [[7]] [[11]] 1 = linalg_inv (worker 2 0) C"
    and "slice2 C 0 (int 1) (int 1) (2 * int 1) = matmul (mneg (?U ! 3)) [[11]]"
    and "slice2 C (int 1) (2 * int 1) 0 (int 1) = matmul (mneg (?U ! 2)) [[7]]"
    by blast
  then have "get_J_coupling ?U [[7]] [[11]] 1 = Inr C
          \<and> get_J (worker 2 0) ?U [[7]] [[11]] 1 = exact_inv C
          \<and> slice2 C 0 1 1 2 = [[- 44]] \<and> slice2 C 1 2 0 1 = [[- 21]]"
    unfolding p q i by simp
  then show ?thesis
    using h2 h3 h4 h5 by auto
qed

text \<open>
  C3 as stated names ULL (\<open>l_U[1]\<close>) and DUR (\<open>l_U[4]\<close>) as the corner blocks of the
  coupling matrix. With six different blocks of size one in \<open>l_U\<close>, the upper right
  block is \<open>- 4 * 11\<close>, not \<open>- 2 * 11\<close>, and the lower left block is \<open>- 3 * 7\<close>, not
  \<open>- 5 * 7\<close>.
\<close>

theorem get_J_coupling_not_ULL_DUR:
  "get_J_coupling [[[1]], [[2]], [[3]], [[4]], [[5]], [[6 :: int]]] [[7]] [[11]] 1
     = Inr [[1, - 44], [- 21, 1]]
   \<and> slice2 [[1, - 44], [- 21, 1 :: int]] 0 1 1 2
       \<noteq> matmul (mneg ([[[1]], [[2]], [[3]], [[4]], [[5]], [[6]]] ! 1)) [[11]]
   \<and> slice2 [[1, - 44], [- 21, 1 :: int]] 1 2 0 1
       \<noteq> matmul (mneg ([[[1]], [[2]], [[3]], [[4]], [[5]], [[6]]] ! 4)) [[7]]"
  by code_simp

subsection \<open>The check of the worker count\<close>

lemma ilog2_power: "ilog2 (2 ^ k) = k"
proof (induction k)
  case 0
  then show ?case by (simp add: ilog2.simps)
next
  case (Suc k)
  have "(2::nat) \<le> 2 ^ Suc k" by simp
  then have "ilog2 (2 ^ Suc k) = Suc (ilog2 (2 ^ Suc k div 2))"
    by (rule ilog2_ge_2)
  with Suc show ?case by simp
qed

lemma log2_is_integer_iff: "log2_is_integer n = (\<exists>k. n = 2 ^ k)"
proof
  assume "log2_is_integer n"
  then have "n = 2 ^ ilog2 n" by (simp add: log2_is_integer_def)
  then show "\<exists>k. n = 2 ^ k" ..
next
  assume "\<exists>k. n = 2 ^ k"
  then obtain k where "n = 2 ^ k" ..
  then show "log2_is_integer n" by (simp add: log2_is_integer_def ilog2_power)
qed

text \<open>
  C4, as the code has it. \<open>pdiv\<close> of pdiv_parallel.py raises ValueError for every
  worker count that is not a power of two, before it does anything else.
\<close>

theorem pdiv_rejects_non_power_of_two:
  assumes "\<not> (\<exists>k. comm_size w = 2 ^ k)"
  shows "pdiv w A blocksize = Inl ValueError"
  using assms by (simp add: pdiv_def log2_is_integer_iff)

lemma three_not_power: "\<not> (\<exists>k. (3::nat) = 2 ^ k)"
proof -
  have "\<not> log2_is_integer 3" by code_simp
  then show ?thesis by (simp add: log2_is_integer_iff)
qed

theorem pdiv_rejects_non_power_of_two_witness:
  "\<not> (\<exists>k. comm_size (worker 3 0) = 2 ^ k) \<and> pdiv (worker 3 0) [[2]] 1 = Inl ValueError"
proof -
  have h: "\<not> (\<exists>k. comm_size (worker 3 0) = 2 ^ k)"
    using three_not_power by (simp add: worker_def)
  from pdiv_rejects_non_power_of_two [OF h] h show ?thesis by blast
qed

text \<open>
  C4 as stated also covers \<open>pdiv_localmap\<close>, which has no such check. With three
  workers, rank 0 first inverts its partition: a singular one gives LinAlgError, and a
  regular one takes the worker through the exchange of the boundary blocks to the
  TypeError of the cross-map update.
\<close>

theorem pdiv_localmap_three_workers:
  "\<not> log2_is_integer 3
   \<and> pdiv_localmap (worker 3 0) [] [[0]] [[[1]]] [[[1]]] 1 = Inl LinAlgError
   \<and> pdiv_localmap (worker 3 0)
        [((1, 3), [[1 / 2]]), ((1, 4), [[1 / 2]]), ((1, 5), [[1 / 2]])]
        [[2]] [[[1]]] [[[1]]] 1 = Inl TypeError"
  by code_simp

subsection \<open>The result of a run\<close>

text \<open>
  C1. The matrix \<open>[[2, 1], [1, 2]]\<close> with blocksize 1 and two workers: rank 0 holds the
  partition \<open>[[2]]\<close>, both bridges are \<open>[[1]]\<close>, and rank 1 sends its three boundary
  blocks \<open>[[1 / 2]]\<close>. The diagonal block of the inverse at rank 0 is \<open>[[2 / 3]]\<close>; the
  run of rank 0 ends in TypeError and returns no block, and the only inverse it has
  computed is the local one, \<open>[[1 / 2]]\<close>.
\<close>

theorem pdiv_localmap_two_workers_rank0:
  "pdiv_localmap (worker 2 0)
      [((1, 3), [[1 / 2]]), ((1, 4), [[1 / 2]]), ((1, 5), [[1 / 2]])]
      [[2]] [[[1]]] [[[1]]] 1 = Inl TypeError
   \<and> exact_inv [[2, 1], [1, 2 :: rat]] = Inr [[2 / 3, - 1 / 3], [- 1 / 3, 2 / 3]]
   \<and> invert_partition (worker 2 0) [[2]] = Inr [[1 / 2]]"
  by code_simp

text \<open>
  C7. The same matrix at rank 1, in a process that runs the module as a script: the
  run ends in TypeError and returns neither a partition nor bridges. In the one case
  where \<open>pdiv_localmap\<close> returns, a single worker, the bridge lists come back as they
  were given.
\<close>

theorem pdiv_localmap_bridges_untouched:
  "pdiv_localmap (worker_bound 2 1 2)
      [((0, 0), [[1 / 2]]), ((0, 1), [[1 / 2]]), ((0, 2), [[1 / 2]])]
      [[2]] [[[1]]] [[[1]]] 1 = Inl TypeError
   \<and> pdiv_localmap (worker 1 0) [] [[2]] [[[1]]] [[[1]]] 1
       = Inr ([[1 / 2]], [[[1]]], [[[1]]])"
  by code_simp

end
